theory Spec2Isabelle
  imports
    Complex_Main
    "HOL-Library.Char_ord"
    "HOL-Library.List_Lexorder"
    "HOL-Library.Product_Lexorder"
    "HOL-Library.Multiset"
begin

chapter \<open>The trading ledger: trade log, position accounting, import and pagination\<close>

text \<open>
  A shallow embedding of the Go packages \<^verbatim>\<open>internal/domain\<close>, \<^verbatim>\<open>internal/store\<close>,
  \<^verbatim>\<open>internal/ingest\<close> and \<^verbatim>\<open>internal/api\<close>.

  Conventions of the embedding.
  \<^item> \<^verbatim>\<open>float64\<close> is idealised as \<^typ>\<open>real\<close>: the formulas of the position engine are
    kept operation for operation, rounding is not modelled. The concrete inputs used
    below are small integers, on which double-precision arithmetic is exact.
  \<^item> \<^verbatim>\<open>time.Time\<close> is the record of the calendar date, wall clock and zone offset that
    \<^verbatim>\<open>Format\<close> prints; \<^verbatim>\<open>Unix()\<close> is computed from it.
  \<^item> The PostgreSQL tables are lists of rows; a transaction is a function from the
    database to an error or the new database, so that a rollback is the old database.
    The constraints of the schema that a statement can violate (primary keys, the partial
    unique index on open positions, foreign keys) are branches of the model, and so is
    the refusal of the driver to encode a Go \<^verbatim>\<open>int\<close> that does not fit an \<^verbatim>\<open>INTEGER\<close> column.
  \<^item> Errors caused by the environment (lost connections, cancelled contexts) are not
    modelled.
\<close>

section \<open>Package domain\<close>

datatype AccountType = AccountTypeLive | AccountTypePaper

datatype Side = SideBuy | SideSell

datatype PositionSide = PositionSideLong | PositionSideShort

datatype MarketType = MarketTypeSpot | MarketTypeFutures

datatype PositionStatus = PositionStatusOpen | PositionStatusClosed

text \<open>
  The Go types are named strings; the columns that hold them carry \<^verbatim>\<open>CHECK\<close> constraints
  (\<^verbatim>\<open>side IN ('buy', 'sell')\<close> and so on) and \<^verbatim>\<open>Validate\<close> admits no other value, so each is
  the datatype of its declared constants.
\<close>

record Time =
  Year :: int
  Month :: int
  Day :: int
  Hour :: int
  Minute :: int
  Second :: int
  Nanosecond :: int
  ZoneOffset :: int

text \<open>\<^const>\<open>ZoneOffset\<close> is in seconds east of UTC.\<close>

definition daysSinceEpoch :: "int \<Rightarrow> int \<Rightarrow> int \<Rightarrow> int" where
  \<comment> \<open>days from 1970-01-01 to the given proleptic Gregorian date\<close>
  "daysSinceEpoch y m d =
     (let y' = (if m \<le> 2 then y - 1 else y);
          era = y' div 400;
          yoe = y' - era * 400;
          doy = (153 * (if 2 < m then m - 3 else m + 9) + 2) div 5 + d - 1;
          doe = yoe * 365 + yoe div 4 - yoe div 100 + doy
      in era * 146097 + doe - 719468)"

definition Unix :: "Time \<Rightarrow> int" where
  \<comment> \<open>\<^verbatim>\<open>t.Unix()\<close>: seconds since 1970-01-01T00:00:00Z\<close>
  "Unix t = daysSinceEpoch (Year t) (Month t) (Day t) * 86400
              + Hour t * 3600 + Minute t * 60 + Second t - ZoneOffset t"

definition UnixNano :: "Time \<Rightarrow> int" where
  "UnixNano t = Unix t * 1000000000 + Nanosecond t"

definition pgMicros :: "Time \<Rightarrow> int" where
  \<comment> \<open>the value a \<^verbatim>\<open>TIMESTAMPTZ\<close> column keeps: the instant in whole microseconds\<close>
  "pgMicros t = Unix t * 1000000 + Nanosecond t div 1000"

record Account =
  ID :: string
  Name :: string
  Type :: AccountType
  CreatedAt :: Time

record Trade =
  TradeID :: string
  AccountID :: string
  Symbol :: string
  Side :: Side
  Quantity :: real
  Price :: real
  Fee :: real
  FeeCurrency :: string
  MarketType :: MarketType
  Timestamp :: Time
  IngestedAt :: Time
  CostBasis :: real
  RealizedPnL :: real
  Leverage :: "int option"
  Margin :: "real option"
  LiquidationPrice :: "real option"
  FundingFee :: "real option"

record Position =
  ID :: string
  AccountID :: string
  Symbol :: string
  MarketType :: MarketType
  Side :: PositionSide
  Quantity :: real
  AvgEntryPrice :: real
  CostBasis :: real
  RealizedPnL :: real
  Leverage :: "int option"
  Margin :: "real option"
  LiquidationPrice :: "real option"
  Status :: PositionStatus
  OpenedAt :: Time
  ClosedAt :: "Time option"

definition InferAccountType :: "string \<Rightarrow> AccountType" where
  "InferAccountType accountID =
     (if accountID = ''paper'' then AccountTypePaper else AccountTypeLive)"

section \<open>The database\<close>

datatype error =
    UniqueViolation string
  | ForeignKeyViolation string
  | InvalidCursor string
  | InvalidTimestamp string
  | ValueOutOfRange string

record Ledger =
  ledger_accounts :: "Account list"
  ledger_trades :: "Trade list"
  ledger_positions :: "Position list"

definition emptyLedger :: Ledger where
  "emptyLedger = \<lparr>ledger_accounts = [], ledger_trades = [], ledger_positions = []\<rparr>"

definition int4 :: "int option \<Rightarrow> bool" where
  \<comment> \<open>the argument \<^verbatim>\<open>*int\<close> can be encoded for a column of type \<^verbatim>\<open>INTEGER\<close>: \<^verbatim>\<open>nil\<close> is
      \<^verbatim>\<open>NULL\<close>, any other value must lie between \<^verbatim>\<open>math.MinInt32\<close> and \<^verbatim>\<open>math.MaxInt32\<close>\<close>
  "int4 v = (case v of None \<Rightarrow> True | Some n \<Rightarrow> - 2147483648 \<le> n \<and> n \<le> 2147483647)"

definition accountExists :: "string \<Rightarrow> Ledger \<Rightarrow> bool" where
  "accountExists a db = (a \<in> set (map Account.ID (ledger_accounts db)))"

definition openPosition :: "string \<Rightarrow> string \<Rightarrow> MarketType \<Rightarrow> Ledger \<Rightarrow> Position option" where
  \<comment> \<open>\<^verbatim>\<open>SELECT ... FROM ledger_positions WHERE account_id = $1 AND symbol = $2
      AND market_type = ... AND status = 'open'\<close>, read with \<^verbatim>\<open>QueryRow\<close>\<close>
  "openPosition a symb mt db =
     find (\<lambda>r. Position.AccountID r = a \<and> Position.Symbol r = symb
                \<and> Position.MarketType r = mt \<and> Status r = PositionStatusOpen)
          (ledger_positions db)"

definition positionByID :: "string \<Rightarrow> Ledger \<Rightarrow> Position option" where
  "positionByID pid db = find (\<lambda>r. Position.ID r = pid) (ledger_positions db)"

definition insertPosition :: "Position \<Rightarrow> Ledger \<Rightarrow> error + Ledger" where
  \<comment> \<open>\<^verbatim>\<open>INSERT INTO ledger_positions\<close> under the primary key on \<^verbatim>\<open>id\<close>, the partial unique
      index \<^verbatim>\<open>idx_ledger_positions_open_unique\<close> and the foreign key to the accounts\<close>
  "insertPosition p db =
     (if Position.ID p \<in> set (map Position.ID (ledger_positions db))
        then Inl (UniqueViolation ''ledger_positions_pkey'')
      else if Status p = PositionStatusOpen
              \<and> openPosition (Position.AccountID p) (Position.Symbol p) (Position.MarketType p) db \<noteq> None
        then Inl (UniqueViolation ''idx_ledger_positions_open_unique'')
      else if \<not> accountExists (Position.AccountID p) db
        then Inl (ForeignKeyViolation ''ledger_positions_account_id_fkey'')
      else Inr (db\<lparr>ledger_positions := ledger_positions db @ [p]\<rparr>))"

definition updatePosition :: "string \<Rightarrow> (Position \<Rightarrow> Position) \<Rightarrow> Ledger \<Rightarrow> Ledger" where
  \<comment> \<open>\<^verbatim>\<open>UPDATE ledger_positions SET ... WHERE id = $n\<close>\<close>
  "updatePosition pid f db =
     db\<lparr>ledger_positions := map (\<lambda>r. if Position.ID r = pid then f r else r) (ledger_positions db)\<rparr>"

section \<open>Formatting integers\<close>

definition digitChar :: "nat \<Rightarrow> char" where
  "digitChar d =
     (if d = 0 then CHR ''0'' else if d = 1 then CHR ''1'' else if d = 2 then CHR ''2''
      else if d = 3 then CHR ''3'' else if d = 4 then CHR ''4'' else if d = 5 then CHR ''5''
      else if d = 6 then CHR ''6'' else if d = 7 then CHR ''7'' else if d = 8 then CHR ''8''
      else CHR ''9'')"

fun formatNat :: "nat \<Rightarrow> string" where
  "formatNat n = (if n < 10 then [digitChar n] else formatNat (n div 10) @ [digitChar (n mod 10)])"

definition formatInt :: "int \<Rightarrow> string" where
  \<comment> \<open>the verb \<^verbatim>\<open>%d\<close> of \<^verbatim>\<open>fmt.Sprintf\<close>\<close>
  "formatInt i = (if i < 0 then CHR ''-'' # formatNat (nat (- i)) else formatNat (nat i))"

section \<open>Package store: the position engine\<close>

definition upsertSpotPosition :: "Trade \<Rightarrow> Ledger \<Rightarrow> error + Ledger" where
  "upsertSpotPosition trade db =
     (case openPosition (Trade.AccountID trade) (Trade.Symbol trade) MarketTypeSpot db of
        None \<Rightarrow>
          if Trade.Side trade = SideBuy then
            (let costBasis = Trade.Quantity trade * Price trade + Fee trade;
                 posID = Trade.AccountID trade @ ''-'' @ Trade.Symbol trade @ ''-spot-''
                           @ formatInt (Unix (Timestamp trade))
             in insertPosition
                  \<lparr>Position.ID = posID, Position.AccountID = Trade.AccountID trade,
                   Position.Symbol = Trade.Symbol trade, Position.MarketType = MarketTypeSpot,
                   Position.Side = PositionSideLong, Position.Quantity = Trade.Quantity trade,
                   AvgEntryPrice = Price trade, Position.CostBasis = costBasis,
                   Position.RealizedPnL = 0, Position.Leverage = None, Position.Margin = None,
                   Position.LiquidationPrice = None, Status = PositionStatusOpen,
                   OpenedAt = Timestamp trade, ClosedAt = None\<rparr> db)
          else Inr db
      | Some pos \<Rightarrow>
          if Trade.Side trade = SideBuy then
            (let newCostBasis = Trade.Quantity trade * Price trade + Fee trade;
                 totalQuantity = Position.Quantity pos + Trade.Quantity trade;
                 totalCost = Position.CostBasis pos + newCostBasis;
                 avgEntry = totalCost / totalQuantity
             in Inr (updatePosition (Position.ID pos)
                      (\<lambda>r. r\<lparr>Position.Quantity := totalQuantity, AvgEntryPrice := avgEntry,
                              Position.CostBasis := totalCost\<rparr>) db))
          else
            (let realizedPnL = (Price trade - AvgEntryPrice pos) * Trade.Quantity trade - Fee trade;
                 newQuantity = Position.Quantity pos - Trade.Quantity trade
             in if newQuantity \<le> 0 then
                  Inr (updatePosition (Position.ID pos)
                        (\<lambda>r. r\<lparr>Position.Quantity := 0,
                                Position.RealizedPnL := Position.RealizedPnL r + realizedPnL,
                                Status := PositionStatusClosed,
                                ClosedAt := Some (Timestamp trade)\<rparr>) db)
                else
                  (let remainingCostBasis = AvgEntryPrice pos * newQuantity
                   in Inr (updatePosition (Position.ID pos)
                            (\<lambda>r. r\<lparr>Position.Quantity := newQuantity,
                                    Position.CostBasis := remainingCostBasis,
                                    Position.RealizedPnL := Position.RealizedPnL r + realizedPnL\<rparr>) db))))"

definition coalesce :: "'a option \<Rightarrow> 'a option \<Rightarrow> 'a option" where
  \<comment> \<open>SQL \<^verbatim>\<open>COALESCE($n, column)\<close>\<close>
  "coalesce new old = (case new of Some v \<Rightarrow> Some v | None \<Rightarrow> old)"

definition upsertFuturesPosition :: "Trade \<Rightarrow> Ledger \<Rightarrow> error + Ledger" where
  "upsertFuturesPosition trade db =
     (case openPosition (Trade.AccountID trade) (Trade.Symbol trade) MarketTypeFutures db of
        None \<Rightarrow>
          (let posSide = (if Trade.Side trade = SideBuy then PositionSideLong else PositionSideShort);
               costBasis = Trade.Quantity trade * Price trade;
               posID = Trade.AccountID trade @ ''-'' @ Trade.Symbol trade @ ''-futures-''
                         @ formatInt (Unix (Timestamp trade))
           in if \<not> int4 (Trade.Leverage trade) then Inl (ValueOutOfRange ''leverage'')
              else insertPosition
                \<lparr>Position.ID = posID, Position.AccountID = Trade.AccountID trade,
                 Position.Symbol = Trade.Symbol trade, Position.MarketType = MarketTypeFutures,
                 Position.Side = posSide, Position.Quantity = Trade.Quantity trade,
                 AvgEntryPrice = Price trade, Position.CostBasis = costBasis,
                 Position.RealizedPnL = 0, Position.Leverage = Trade.Leverage trade,
                 Position.Margin = Trade.Margin trade,
                 Position.LiquidationPrice = Trade.LiquidationPrice trade,
                 Status = PositionStatusOpen, OpenedAt = Timestamp trade, ClosedAt = None\<rparr> db)
      | Some pos \<Rightarrow>
          (let isClosing = (Position.Side pos = PositionSideLong \<and> Trade.Side trade = SideSell)
                          \<or> (Position.Side pos = PositionSideShort \<and> Trade.Side trade = SideBuy)
           in if \<not> isClosing then
                (let newCost = Trade.Quantity trade * Price trade;
                     totalQuantity = Position.Quantity pos + Trade.Quantity trade;
                     totalCost = Position.CostBasis pos + newCost;
                     avgEntry = totalCost / totalQuantity
                 in if \<not> int4 (Trade.Leverage trade) then Inl (ValueOutOfRange ''leverage'')
                    else Inr (updatePosition (Position.ID pos)
                          (\<lambda>r. r\<lparr>Position.Quantity := totalQuantity, AvgEntryPrice := avgEntry,
                                  Position.CostBasis := totalCost,
                                  Position.Leverage := coalesce (Trade.Leverage trade) (Position.Leverage r),
                                  Position.Margin := coalesce (Trade.Margin trade) (Position.Margin r),
                                  Position.LiquidationPrice :=
                                    coalesce (Trade.LiquidationPrice trade) (Position.LiquidationPrice r)\<rparr>) db))
              else
                (let realizedPnL0 =
                       (if Position.Side pos = PositionSideLong
                        then (Price trade - AvgEntryPrice pos) * Trade.Quantity trade
                        else (AvgEntryPrice pos - Price trade) * Trade.Quantity trade);
                     realizedPnL1 = realizedPnL0 - Fee trade;
                     realizedPnL = (case FundingFee trade of
                                      Some g \<Rightarrow> realizedPnL1 - g
                                    | None \<Rightarrow> realizedPnL1);
                     newQuantity = Position.Quantity pos - Trade.Quantity trade
                 in if newQuantity \<le> 0 then
                      Inr (updatePosition (Position.ID pos)
                            (\<lambda>r. r\<lparr>Position.Quantity := 0,
                                    Position.RealizedPnL := Position.RealizedPnL r + realizedPnL,
                                    Status := PositionStatusClosed,
                                    ClosedAt := Some (Timestamp trade)\<rparr>) db)
                    else
                      (let remainingCost = AvgEntryPrice pos * newQuantity
                       in Inr (updatePosition (Position.ID pos)
                                (\<lambda>r. r\<lparr>Position.Quantity := newQuantity,
                                        Position.CostBasis := remainingCost,
                                        Position.RealizedPnL := Position.RealizedPnL r + realizedPnL\<rparr>) db)))))"

text \<open>
  In \<^const>\<open>upsertSpotPosition\<close> and \<^const>\<open>upsertFuturesPosition\<close> the quotient
  \<^verbatim>\<open>totalCost / totalQuantity\<close> is the division of \<^typ>\<open>real\<close>; the Go division by a zero
  quantity yields an infinity or a NaN, which the embedding does not represent. The two
  statements of \<^const>\<open>upsertFuturesPosition\<close> that pass \<^verbatim>\<open>trade.Leverage\<close> fail before they
  reach the server when the value does not fit the column, see \<^const>\<open>int4\<close>.
\<close>

definition UpsertPosition :: "Trade \<Rightarrow> Ledger \<Rightarrow> error + Ledger" where
  "UpsertPosition trade db =
     (if Trade.MarketType trade = MarketTypeSpot then upsertSpotPosition trade db
      else upsertFuturesPosition trade db)"

section \<open>Rows and their keys\<close>

lemma find_by_key_distinct:
  "distinct (map f xs) \<Longrightarrow> x \<in> set xs \<Longrightarrow> find (\<lambda>r. f r = f x) xs = Some x"
  by (induction xs) (auto simp: image_iff)

lemma find_Some_mem: "find P xs = Some x \<Longrightarrow> x \<in> set xs \<and> P x"
  by (induction xs) (auto split: if_splits)

lemma openPosition_positionByID:
  assumes "distinct (map Position.ID (ledger_positions db))"
    and "openPosition a s mt db = Some pos"
  shows "positionByID (Position.ID pos) db = Some pos"
  using assms find_Some_mem[of _ "ledger_positions db" pos]
  by (simp add: openPosition_def positionByID_def find_by_key_distinct)

lemma positionByID_updatePosition:
  assumes "positionByID pid db = Some pos" and "Position.ID (f pos) = pid"
  shows "positionByID pid (updatePosition pid f db) = Some (f pos)"
proof -
  have "find (\<lambda>r. Position.ID r = pid) ps = Some pos \<Longrightarrow>
        find (\<lambda>r. Position.ID r = pid) (map (\<lambda>r. if Position.ID r = pid then f r else r) ps) = Some (f pos)"
    for ps
    using assms(2) by (induction ps) (auto split: if_splits)
  with assms(1) show ?thesis
    by (simp add: positionByID_def updatePosition_def)
qed

section \<open>Concrete ledgers\<close>

definition exTime :: "int \<Rightarrow> Time" where
  \<comment> \<open>2025-01-15T10:00:00Z plus the given number of seconds (below 60)\<close>
  "exTime s = \<lparr>Year = 2025, Month = 1, Day = 15, Hour = 10, Minute = 0, Second = s,
               Nanosecond = 0, ZoneOffset = 0\<rparr>"

definition exAccount :: Account where
  "exAccount = \<lparr>Account.ID = ''live'', Name = ''live'', Type = AccountTypeLive, CreatedAt = exTime 0\<rparr>"

definition exPosition :: "MarketType \<Rightarrow> PositionSide \<Rightarrow> real \<Rightarrow> real \<Rightarrow> real \<Rightarrow> Position" where
  \<comment> \<open>an open BTC-USD position of account live: market, direction, quantity, average entry
      price and cost basis as given\<close>
  "exPosition mt sd q ap cb =
     \<lparr>Position.ID = ''live-BTC-USD-1736935200'', Position.AccountID = ''live'',
      Position.Symbol = ''BTC-USD'', Position.MarketType = mt, Position.Side = sd,
      Position.Quantity = q, AvgEntryPrice = ap, Position.CostBasis = cb,
      Position.RealizedPnL = 0, Position.Leverage = None, Position.Margin = None,
      Position.LiquidationPrice = None, Status = PositionStatusOpen,
      OpenedAt = exTime 0, ClosedAt = None\<rparr>"

definition exTrade :: "string \<Rightarrow> MarketType \<Rightarrow> Side \<Rightarrow> real \<Rightarrow> real \<Rightarrow> real \<Rightarrow> real option \<Rightarrow> int \<Rightarrow> Trade" where
  \<comment> \<open>a BTC-USD trade of account live: id, market, side, quantity, price, fee, funding fee
      and the second of its timestamp as given\<close>
  "exTrade tid mt sd q p f g s =
     \<lparr>TradeID = tid, Trade.AccountID = ''live'', Trade.Symbol = ''BTC-USD'', Trade.Side = sd,
      Trade.Quantity = q, Price = p, Fee = f, FeeCurrency = ''USD'', Trade.MarketType = mt,
      Timestamp = exTime s, IngestedAt = exTime s, Trade.CostBasis = 0, Trade.RealizedPnL = 0,
      Trade.Leverage = None, Trade.Margin = None, Trade.LiquidationPrice = None,
      FundingFee = g\<rparr>"

definition exLedger :: "Position list \<Rightarrow> Ledger" where
  "exLedger ps = \<lparr>ledger_accounts = [exAccount], ledger_trades = [], ledger_positions = ps\<rparr>"

section \<open>Closing trades\<close>

text \<open>
  Claim C1, as the code has it. For an open futures position \<open>pos\<close> and a closing trade
  (a sell against a long, a buy against a short) of quantity \<open>q\<close>, price \<open>p\<close>, fee \<open>f\<close> and
  optional funding fee \<open>g\<close>, the realized P&L of the row grows by \<open>(p - ap) * q\<close> for a long
  and by \<open>(ap - p) * q\<close> for a short, minus \<open>f\<close> and minus \<open>g\<close> when present: the factor is
  the whole quantity of the trade, not the smaller of \<open>q\<close> and the open quantity. When
  \<open>qp - q \<le> 0\<close> the row gets quantity 0, status closed and \<open>closed_at\<close> the timestamp of
  the trade; otherwise the quantity becomes \<open>qp - q\<close> and the row stays open. The remainder
  of an over-close is discarded: the row keeps its direction, no row is added to the
  table, every other position row is left as it was, and so are the trades and the
  accounts.
\<close>

theorem futures_close_realized:
  assumes pk: "distinct (map Position.ID (ledger_positions db))"
    and op: "openPosition (Trade.AccountID trade) (Trade.Symbol trade) MarketTypeFutures db = Some pos"
    and closing: "(Position.Side pos = PositionSideLong \<and> Trade.Side trade = SideSell)
                  \<or> (Position.Side pos = PositionSideShort \<and> Trade.Side trade = SideBuy)"
  shows "\<exists>db' pos'. upsertFuturesPosition trade db = Inr db'
           \<and> positionByID (Position.ID pos) db' = Some pos'
           \<and> Position.RealizedPnL pos' - Position.RealizedPnL pos =
               (if Position.Side pos = PositionSideLong
                then (Price trade - AvgEntryPrice pos) * Trade.Quantity trade
                else (AvgEntryPrice pos - Price trade) * Trade.Quantity trade)
               - Fee trade - (case FundingFee trade of None \<Rightarrow> 0 | Some g \<Rightarrow> g)
           \<and> (if Position.Quantity pos - Trade.Quantity trade \<le> 0
               then Position.Quantity pos' = 0 \<and> Status pos' = PositionStatusClosed
                    \<and> ClosedAt pos' = Some (Timestamp trade)
               else Position.Quantity pos' = Position.Quantity pos - Trade.Quantity trade
                    \<and> Status pos' = Status pos \<and> ClosedAt pos' = ClosedAt pos)
           \<and> Position.Side pos' = Position.Side pos
           \<and> map Position.ID (ledger_positions db') = map Position.ID (ledger_positions db)
           \<and> filter (\<lambda>r. Position.ID r \<noteq> Position.ID pos) (ledger_positions db')
               = filter (\<lambda>r. Position.ID r \<noteq> Position.ID pos) (ledger_positions db)
           \<and> ledger_trades db' = ledger_trades db \<and> ledger_accounts db' = ledger_accounts db"
proof -
  have byid: "positionByID (Position.ID pos) db = Some pos"
    using openPosition_positionByID[OF pk op] .
  have ids: "map Position.ID (ledger_positions (updatePosition (Position.ID pos) f db))
               = map Position.ID (ledger_positions db)"
    if "\<And>r. Position.ID (f r) = Position.ID r" for f
    using that by (simp add: updatePosition_def)
  have others: "filter (\<lambda>r. Position.ID r \<noteq> Position.ID pos)
                  (ledger_positions (updatePosition (Position.ID pos) f db))
               = filter (\<lambda>r. Position.ID r \<noteq> Position.ID pos) (ledger_positions db)"
    if "\<And>r. Position.ID (f r) = Position.ID r" for f
  proof -
    have "filter (\<lambda>r. Position.ID r \<noteq> Position.ID pos)
            (map (\<lambda>r. if Position.ID r = Position.ID pos then f r else r) ps)
          = filter (\<lambda>r. Position.ID r \<noteq> Position.ID pos) ps" for ps
      using that by (induction ps) simp_all
    then show ?thesis by (simp add: updatePosition_def)
  qed
  have frame: "ledger_trades (updatePosition (Position.ID pos) f db) = ledger_trades db"
    "ledger_accounts (updatePosition (Position.ID pos) f db) = ledger_accounts db" for f
    by (simp_all add: updatePosition_def)
  show ?thesis
  proof (cases "Position.Quantity pos - Trade.Quantity trade \<le> 0")
    case True
    then show ?thesis
      using op closing positionByID_updatePosition[OF byid] ids others frame
      by (cases "FundingFee trade") (auto simp: upsertFuturesPosition_def Let_def)
  next
    case False
    then show ?thesis
      using op closing positionByID_updatePosition[OF byid] ids others frame
      by (cases "FundingFee trade") (auto simp: upsertFuturesPosition_def Let_def)
  qed
qed


text \<open>
  Claim C2, as the code has it. For an open spot position \<open>pos\<close> and a sell of quantity
  \<open>q \<ge> qp\<close> at price \<open>p\<close> with fee \<open>f\<close>, the position is closed: its realized P&L grows by
  \<open>(p - ap) * q - f\<close> (the whole quantity of the trade), its quantity becomes 0, its status
  closed and \<open>closed_at\<close> the timestamp of the trade. The row stays a long and no row is
  added, so the excess is not carried as a short.
\<close>

theorem spot_close_realized:
  assumes pk: "distinct (map Position.ID (ledger_positions db))"
    and op: "openPosition (Trade.AccountID trade) (Trade.Symbol trade) MarketTypeSpot db = Some pos"
    and sell: "Trade.Side trade = SideSell"
    and all: "Position.Quantity pos \<le> Trade.Quantity trade"
  shows "\<exists>db' pos'. upsertSpotPosition trade db = Inr db'
           \<and> positionByID (Position.ID pos) db' = Some pos'
           \<and> Position.RealizedPnL pos' - Position.RealizedPnL pos =
               (Price trade - AvgEntryPrice pos) * Trade.Quantity trade - Fee trade
           \<and> Position.Quantity pos' = 0 \<and> Status pos' = PositionStatusClosed
           \<and> ClosedAt pos' = Some (Timestamp trade)
           \<and> Position.Side pos' = Position.Side pos
           \<and> map Position.ID (ledger_positions db') = map Position.ID (ledger_positions db)"
proof -
  have byid: "positionByID (Position.ID pos) db = Some pos"
    using openPosition_positionByID[OF pk op] .
  have ids: "map Position.ID (ledger_positions (updatePosition (Position.ID pos) f db))
               = map Position.ID (ledger_positions db)"
    if "\<And>r. Position.ID (f r) = Position.ID r" for f
    using that by (simp add: updatePosition_def)
  show ?thesis
    using op sell all positionByID_updatePosition[OF byid] ids
    by (auto simp: upsertSpotPosition_def Let_def)
qed

theorem futures_close_realized_witness:
  "distinct (map Position.ID (ledger_positions (exLedger [exPosition MarketTypeFutures PositionSideShort 10 100 1000])))
   \<and> openPosition ''live'' ''BTC-USD'' MarketTypeFutures
        (exLedger [exPosition MarketTypeFutures PositionSideShort 10 100 1000])
       = Some (exPosition MarketTypeFutures PositionSideShort 10 100 1000)
   \<and> (\<exists>db' pos'.
         upsertFuturesPosition (exTrade ''t2'' MarketTypeFutures SideBuy 4 90 2 (Some 1) 30)
           (exLedger [exPosition MarketTypeFutures PositionSideShort 10 100 1000]) = Inr db'
         \<and> positionByID ''live-BTC-USD-1736935200'' db' = Some pos'
         \<and> Position.RealizedPnL pos' = 37 \<and> Position.Quantity pos' = 6
         \<and> Status pos' = PositionStatusOpen \<and> Position.Side pos' = PositionSideShort
         \<and> map Position.ID (ledger_positions db') = [''live-BTC-USD-1736935200''])"
proof -
  let ?pos = "exPosition MarketTypeFutures PositionSideShort 10 100 1000"
  let ?db = "exLedger [?pos]"
  let ?t = "exTrade ''t2'' MarketTypeFutures SideBuy 4 90 2 (Some 1) 30"
  have h1: "distinct (map Position.ID (ledger_positions ?db))"
    by (simp add: exLedger_def)
  have h2: "openPosition (Trade.AccountID ?t) (Trade.Symbol ?t) MarketTypeFutures ?db = Some ?pos"
    by (simp add: exLedger_def exTrade_def exPosition_def openPosition_def)
  have h3: "(Position.Side ?pos = PositionSideLong \<and> Trade.Side ?t = SideSell)
            \<or> (Position.Side ?pos = PositionSideShort \<and> Trade.Side ?t = SideBuy)"
    by (simp add: exTrade_def exPosition_def)
  from futures_close_realized[OF h1 h2 h3] obtain db' pos' where
    r: "upsertFuturesPosition ?t ?db = Inr db'"
       "positionByID (Position.ID ?pos) db' = Some pos'"
       "Position.RealizedPnL pos' - Position.RealizedPnL ?pos =
               (if Position.Side ?pos = PositionSideLong
                then (Price ?t - AvgEntryPrice ?pos) * Trade.Quantity ?t
                else (AvgEntryPrice ?pos - Price ?t) * Trade.Quantity ?t)
               - Fee ?t - (case FundingFee ?t of None \<Rightarrow> 0 | Some g \<Rightarrow> g)"
       "(if Position.Quantity ?pos - Trade.Quantity ?t \<le> 0
               then Position.Quantity pos' = 0 \<and> Status pos' = PositionStatusClosed
                    \<and> ClosedAt pos' = Some (Timestamp ?t)
               else Position.Quantity pos' = Position.Quantity ?pos - Trade.Quantity ?t
                    \<and> Status pos' = Status ?pos \<and> ClosedAt pos' = ClosedAt ?pos)"
       "Position.Side pos' = Position.Side ?pos"
       "map Position.ID (ledger_positions db') = map Position.ID (ledger_positions ?db)"
    by blast
  have "Position.RealizedPnL pos' = 37" "Position.Quantity pos' = 6" "Status pos' = PositionStatusOpen"
    using r(3,4) by (simp_all add: exTrade_def exPosition_def)
  moreover have "positionByID ''live-BTC-USD-1736935200'' db' = Some pos'"
    using r(2) by (simp add: exPosition_def)
  moreover have "Position.Side pos' = PositionSideShort"
    "map Position.ID (ledger_positions db') = [''live-BTC-USD-1736935200'']"
    using r(5,6) by (simp_all add: exPosition_def exLedger_def)
  ultimately show ?thesis
    using h1 h2 r(1) by (simp add: exTrade_def)
qed

text \<open>
  Claim C1 as stated takes \<open>min q qp\<close> as the factor. A long of 1 unit entered at 100 and
  closed by a sell of 2 units at 110 realizes 20 in the code, not \<open>(110 - 100) * min 2 1 = 10\<close>.
\<close>

theorem futures_overclose_counterexample:
  "upsertFuturesPosition (exTrade ''t2'' MarketTypeFutures SideSell 2 110 0 None 30)
       (exLedger [exPosition MarketTypeFutures PositionSideLong 1 100 100])
     = Inr (exLedger [(exPosition MarketTypeFutures PositionSideLong 1 100 100)
                        \<lparr>Position.Quantity := 0, Position.RealizedPnL := 20,
                         Status := PositionStatusClosed, ClosedAt := Some (exTime 30)\<rparr>])
   \<and> (20::real) \<noteq> (110 - 100) * min 2 1 - 0"
  by (simp add: upsertFuturesPosition_def openPosition_def updatePosition_def exLedger_def
        exTrade_def exPosition_def Let_def)



theorem spot_close_realized_witness:
  "distinct (map Position.ID (ledger_positions (exLedger [exPosition MarketTypeSpot PositionSideLong (1/2) 50000 25025])))
   \<and> openPosition ''live'' ''BTC-USD'' MarketTypeSpot
        (exLedger [exPosition MarketTypeSpot PositionSideLong (1/2) 50000 25025])
       = Some (exPosition MarketTypeSpot PositionSideLong (1/2) 50000 25025)
   \<and> (\<exists>db' pos'.
         upsertSpotPosition (exTrade ''t2'' MarketTypeSpot SideSell (1/2) 55000 (55/2) None 30)
           (exLedger [exPosition MarketTypeSpot PositionSideLong (1/2) 50000 25025]) = Inr db'
         \<and> positionByID ''live-BTC-USD-1736935200'' db' = Some pos'
         \<and> Position.RealizedPnL pos' = 4945 / 2 \<and> Position.Quantity pos' = 0
         \<and> Status pos' = PositionStatusClosed \<and> ClosedAt pos' = Some (exTime 30)
         \<and> Position.Side pos' = PositionSideLong
         \<and> map Position.ID (ledger_positions db') = [''live-BTC-USD-1736935200''])"
proof -
  let ?pos = "exPosition MarketTypeSpot PositionSideLong (1/2) 50000 25025"
  let ?db = "exLedger [?pos]"
  let ?t = "exTrade ''t2'' MarketTypeSpot SideSell (1/2) 55000 (55/2) None 30"
  have h1: "distinct (map Position.ID (ledger_positions ?db))"
    by (simp add: exLedger_def)
  have h2: "openPosition (Trade.AccountID ?t) (Trade.Symbol ?t) MarketTypeSpot ?db = Some ?pos"
    by (simp add: exLedger_def exTrade_def exPosition_def openPosition_def)
  have h3: "Trade.Side ?t = SideSell"
    by (simp add: exTrade_def)
  have h4: "Position.Quantity ?pos \<le> Trade.Quantity ?t"
    by (simp add: exTrade_def exPosition_def)
  from spot_close_realized[OF h1 h2 h3 h4] obtain db' pos' where
    r: "upsertSpotPosition ?t ?db = Inr db'"
       "positionByID (Position.ID ?pos) db' = Some pos'"
       "Position.RealizedPnL pos' - Position.RealizedPnL ?pos =
               (Price ?t - AvgEntryPrice ?pos) * Trade.Quantity ?t - Fee ?t"
       "Position.Quantity pos' = 0" "Status pos' = PositionStatusClosed"
       "ClosedAt pos' = Some (Timestamp ?t)"
       "Position.Side pos' = Position.Side ?pos"
       "map Position.ID (ledger_positions db') = map Position.ID (ledger_positions ?db)"
    by blast
  have "Position.RealizedPnL pos' = 4945 / 2" "ClosedAt pos' = Some (exTime 30)"
       "Position.Side pos' = PositionSideLong"
       "map Position.ID (ledger_positions db') = [''live-BTC-USD-1736935200'']"
       "positionByID ''live-BTC-USD-1736935200'' db' = Some pos'"
    using r(2,3,6,7,8) by (simp_all add: exTrade_def exPosition_def exLedger_def)
  then show ?thesis
    using h1 h2 r(1,4,5) by (simp add: exTrade_def)
qed

text \<open>
  Claim C2 as stated truncates the sold quantity to the open quantity. A long of 1 unit
  entered at 100 and sold by a trade of 2 units at 110 realizes 20 in the code, not
  \<open>(110 - 100) * 1 = 10\<close>.
\<close>

theorem spot_oversell_counterexample:
  "upsertSpotPosition (exTrade ''t2'' MarketTypeSpot SideSell 2 110 0 None 30)
       (exLedger [exPosition MarketTypeSpot PositionSideLong 1 100 100])
     = Inr (exLedger [(exPosition MarketTypeSpot PositionSideLong 1 100 100)
                        \<lparr>Position.Quantity := 0, Position.RealizedPnL := 20,
                         Status := PositionStatusClosed, ClosedAt := Some (exTime 30)\<rparr>])
   \<and> (20::real) \<noteq> (110 - 100) * 1 - 0"
  by (simp add: upsertSpotPosition_def openPosition_def updatePosition_def exLedger_def
        exTrade_def exPosition_def Let_def)

section \<open>Package store: transactions\<close>

definition InsertTrade :: "Trade \<Rightarrow> Ledger \<Rightarrow> error + (bool \<times> Ledger)" where
  \<comment> \<open>\<^verbatim>\<open>INSERT INTO ledger_trades ... ON CONFLICT (trade_id) DO NOTHING\<close>; the flag is
      \<^verbatim>\<open>tag.RowsAffected() > 0\<close>. The arguments are encoded before the statement is run, so
      a leverage outside \<^verbatim>\<open>INTEGER\<close> is an error also for a trade id that is in the log\<close>
  "InsertTrade trade db =
     (if \<not> int4 (Trade.Leverage trade) then Inl (ValueOutOfRange ''leverage'')
      else if TradeID trade \<in> set (map TradeID (ledger_trades db)) then Inr (False, db)
      else if \<not> accountExists (Trade.AccountID trade) db
        then Inl (ForeignKeyViolation ''ledger_trades_account_id_fkey'')
      else Inr (True, db\<lparr>ledger_trades := ledger_trades db @ [trade]\<rparr>))"

definition InsertTradeAndUpdatePosition :: "Trade \<Rightarrow> Ledger \<Rightarrow> error + (bool \<times> Ledger)" where
  \<comment> \<open>the transaction is run on the database value; on an error the caller keeps the
      database it passed, which is the rollback\<close>
  "InsertTradeAndUpdatePosition trade db =
     (case InsertTrade trade db of
        Inl e \<Rightarrow> Inl e
      | Inr (inserted, tx) \<Rightarrow>
          if inserted then
            (case UpsertPosition trade tx of
               Inl e \<Rightarrow> Inl e
             | Inr tx' \<Rightarrow> Inr (inserted, tx'))
          else Inr (inserted, tx))"

definition TradesForRebuild :: "string \<Rightarrow> Ledger \<Rightarrow> Trade list" where
  \<comment> \<open>\<^verbatim>\<open>SELECT ... FROM ledger_trades WHERE account_id = $1 ORDER BY timestamp ASC,
      trade_id ASC\<close>; text is compared byte by byte\<close>
  "TradesForRebuild accountID db =
     sort_key (\<lambda>t. (pgMicros (Timestamp t), TradeID t))
       (filter (\<lambda>t. Trade.AccountID t = accountID) (ledger_trades db))"

fun upsertAll :: "Trade list \<Rightarrow> Ledger \<Rightarrow> error + Ledger" where
  \<comment> \<open>the loop \<^verbatim>\<open>for i := range trades\<close> of \<^verbatim>\<open>RebuildPositions\<close>, left at the first error\<close>
  "upsertAll [] tx = Inr tx"
| "upsertAll (t # ts) tx =
     (case UpsertPosition t tx of Inl e \<Rightarrow> Inl e | Inr tx' \<Rightarrow> upsertAll ts tx')"

definition RebuildPositions :: "string \<Rightarrow> Ledger \<Rightarrow> error + Ledger" where
  "RebuildPositions accountID db =
     (let tx = db\<lparr>ledger_positions :=
                    filter (\<lambda>r. Position.AccountID r \<noteq> accountID) (ledger_positions db)\<rparr>;
          trades = TradesForRebuild accountID tx
      in upsertAll trades tx)"

definition GetOrCreateAccount :: "Time \<Rightarrow> string \<Rightarrow> AccountType \<Rightarrow> Ledger \<Rightarrow> error + (Account \<times> Ledger)" where
  \<comment> \<open>the first argument is the clock reading that \<^verbatim>\<open>DEFAULT NOW()\<close> stores in
      \<^verbatim>\<open>created_at\<close>; after the \<^verbatim>\<open>INSERT\<close> the function calls itself and finds the row\<close>
  "GetOrCreateAccount now accId accountType db =
     (case find (\<lambda>a. Account.ID a = accId) (ledger_accounts db) of
        Some acct \<Rightarrow> Inr (acct, db)
      | None \<Rightarrow>
          (let acct = \<lparr>Account.ID = accId, Name = accId, Type = accountType, CreatedAt = now\<rparr>
           in Inr (acct, db\<lparr>ledger_accounts := ledger_accounts db @ [acct]\<rparr>)))"

definition GetAvgEntryPrice :: "string \<Rightarrow> string \<Rightarrow> MarketType \<Rightarrow> Ledger \<Rightarrow> real" where
  "GetAvgEntryPrice accountID symb marketType db =
     (case openPosition accountID symb marketType db of
        None \<Rightarrow> 0
      | Some r \<Rightarrow> AvgEntryPrice r)"

definition CostBasisForTrade :: "Trade \<Rightarrow> real \<Rightarrow> Trade" where
  "CostBasisForTrade trade avgEntryPrice =
     (if Trade.Side trade = SideBuy
      then trade\<lparr>Trade.CostBasis := Trade.Quantity trade * Price trade + Fee trade,
                 Trade.RealizedPnL := 0\<rparr>
      else trade\<lparr>Trade.CostBasis := avgEntryPrice * Trade.Quantity trade,
                 Trade.RealizedPnL := (Price trade - avgEntryPrice) * Trade.Quantity trade - Fee trade\<rparr>)"

definition stateAfter :: "Trade \<Rightarrow> Ledger \<Rightarrow> Ledger" where
  \<comment> \<open>the database after a call of \<^const>\<open>InsertTradeAndUpdatePosition\<close>: a failed
      transaction is rolled back\<close>
  "stateAfter trade db =
     (case InsertTradeAndUpdatePosition trade db of Inl e \<Rightarrow> db | Inr (inserted, db') \<Rightarrow> db')"

section \<open>What the engine leaves alone\<close>

lemma updatePosition_frame [simp]:
  "ledger_trades (updatePosition pid f db) = ledger_trades db"
  "ledger_accounts (updatePosition pid f db) = ledger_accounts db"
  by (simp_all add: updatePosition_def)

lemma insertPosition_frame:
  "insertPosition p db = Inr db' \<Longrightarrow>
     ledger_trades db' = ledger_trades db \<and> ledger_accounts db' = ledger_accounts db
     \<and> ledger_positions db' = ledger_positions db @ [p]"
  by (auto simp: insertPosition_def split: if_splits)

lemma upsertSpotPosition_frame:
  "upsertSpotPosition t db = Inr db' \<Longrightarrow>
     ledger_trades db' = ledger_trades db \<and> ledger_accounts db' = ledger_accounts db"
  by (auto simp: upsertSpotPosition_def Let_def split: option.splits if_splits
           dest: insertPosition_frame)

lemma upsertFuturesPosition_frame:
  "upsertFuturesPosition t db = Inr db' \<Longrightarrow>
     ledger_trades db' = ledger_trades db \<and> ledger_accounts db' = ledger_accounts db"
  by (auto simp: upsertFuturesPosition_def Let_def split: option.splits if_splits
           dest: insertPosition_frame)

lemma UpsertPosition_frame:
  "UpsertPosition t db = Inr db' \<Longrightarrow>
     ledger_trades db' = ledger_trades db \<and> ledger_accounts db' = ledger_accounts db"
  using upsertSpotPosition_frame upsertFuturesPosition_frame
  by (auto simp: UpsertPosition_def split: if_splits)

lemma upsertAll_frame:
  "upsertAll ts db = Inr db' \<Longrightarrow>
     ledger_trades db' = ledger_trades db \<and> ledger_accounts db' = ledger_accounts db"
proof (induction ts arbitrary: db)
  case Nil
  then show ?case by simp
next
  case (Cons t ts)
  then show ?case
    by (auto split: sum.splits dest: UpsertPosition_frame)
qed

section \<open>Idempotent ingestion\<close>

definition posID :: "Trade \<Rightarrow> string" where
  \<comment> \<open>the id that \<^const>\<open>UpsertPosition\<close> gives to a position opened by the trade:
      \<^verbatim>\<open>fmt.Sprintf("%s-%s-spot-%d", ...)\<close> and \<^verbatim>\<open>fmt.Sprintf("%s-%s-futures-%d", ...)\<close>\<close>
  "posID trade =
     Trade.AccountID trade @ ''-'' @ Trade.Symbol trade
       @ (if Trade.MarketType trade = MarketTypeSpot then ''-spot-'' else ''-futures-'')
       @ formatInt (Unix (Timestamp trade))"















section \<open>Package ingest: trade events\<close>

record TradeEvent =
  TradeID :: string
  AccountID :: string
  Symbol :: string
  Side :: string
  Quantity :: real
  Price :: real
  Fee :: real
  FeeCurrency :: string
  MarketType :: string
  Timestamp :: string
  Leverage :: "int option"
  Margin :: "real option"
  LiquidationPrice :: "real option"
  FundingFee :: "real option"

datatype layout = RFC3339 | RFC3339Nano

text \<open>
  What the handlers take from outside the repository is gathered in one record:
  \<^item> \<open>timeParse\<close> is \<^verbatim>\<open>time.Parse(layout, value)\<close>, \<open>None\<close> being its error;
  \<^item> \<open>timeNow\<close> is the reading of \<^verbatim>\<open>time.Now()\<close>;
  \<^item> \<open>sortSlice\<close> is \<^verbatim>\<open>sort.Slice\<close> on a slice of events, given the \<^verbatim>\<open>less\<close> function on elements;
  \<^item> \<open>mapRange\<close> is the order in which \<^verbatim>\<open>range\<close> visits the keys of a map, given the keys
    in the order of their insertion.
  The theorems about the handlers hold for every such record unless they say otherwise.
\<close>

record Env =
  timeParse :: "layout \<Rightarrow> string \<Rightarrow> Time option"
  timeNow :: Time
  sortSlice :: "(TradeEvent \<Rightarrow> TradeEvent \<Rightarrow> bool) \<Rightarrow> TradeEvent list \<Rightarrow> TradeEvent list"
  mapRange :: "string list \<Rightarrow> string list"

definition Validate :: "Env \<Rightarrow> TradeEvent \<Rightarrow> string option" where
  \<comment> \<open>\<open>None\<close> is the \<^verbatim>\<open>nil\<close> error; the messages are kept without the formatted values\<close>
  "Validate env e =
     (if TradeEvent.TradeID e = [] then Some ''missing required field: trade_id''
      else if TradeEvent.AccountID e = [] then Some ''missing required field: account_id''
      else if TradeEvent.Symbol e = [] then Some ''missing required field: symbol''
      else if TradeEvent.Side e \<noteq> ''buy'' \<and> TradeEvent.Side e \<noteq> ''sell'' then Some ''invalid side''
      else if TradeEvent.Quantity e \<le> 0 then Some ''quantity must be positive''
      else if TradeEvent.Price e \<le> 0 then Some ''price must be positive''
      else if TradeEvent.FeeCurrency e = [] then Some ''missing required field: fee_currency''
      else if TradeEvent.Timestamp e = [] then Some ''missing required field: timestamp''
      else if TradeEvent.MarketType e \<noteq> ''spot'' \<and> TradeEvent.MarketType e \<noteq> ''futures''
        then Some ''invalid market_type''
      else if timeParse env RFC3339 (TradeEvent.Timestamp e) = None then Some ''invalid timestamp''
      else None)"

definition sideOf :: "string \<Rightarrow> Side" where
  \<comment> \<open>the conversion \<^verbatim>\<open>domain.Side(e.Side)\<close>, applied to validated events only\<close>
  "sideOf s = (if s = ''buy'' then SideBuy else SideSell)"

definition marketTypeOf :: "string \<Rightarrow> MarketType" where
  \<comment> \<open>the conversion \<^verbatim>\<open>domain.MarketType(e.MarketType)\<close>, applied to validated events only\<close>
  "marketTypeOf s = (if s = ''spot'' then MarketTypeSpot else MarketTypeFutures)"

definition ToDomain :: "Env \<Rightarrow> TradeEvent \<Rightarrow> error + Trade" where
  "ToDomain env e =
     (case timeParse env RFC3339 (TradeEvent.Timestamp e) of
        None \<Rightarrow> Inl (InvalidTimestamp (TradeEvent.Timestamp e))
      | Some ts \<Rightarrow>
          Inr \<lparr>Trade.TradeID = TradeEvent.TradeID e, Trade.AccountID = TradeEvent.AccountID e,
               Trade.Symbol = TradeEvent.Symbol e, Trade.Side = sideOf (TradeEvent.Side e),
               Trade.Quantity = TradeEvent.Quantity e, Trade.Price = TradeEvent.Price e,
               Trade.Fee = TradeEvent.Fee e, Trade.FeeCurrency = TradeEvent.FeeCurrency e,
               Trade.MarketType = marketTypeOf (TradeEvent.MarketType e),
               Trade.Timestamp = ts, IngestedAt = timeNow env,
               Trade.CostBasis =
                 (if sideOf (TradeEvent.Side e) = SideBuy
                  then TradeEvent.Quantity e * TradeEvent.Price e + TradeEvent.Fee e else 0),
               Trade.RealizedPnL = 0,
               Trade.Leverage = TradeEvent.Leverage e, Trade.Margin = TradeEvent.Margin e,
               Trade.LiquidationPrice = TradeEvent.LiquidationPrice e,
               Trade.FundingFee = TradeEvent.FundingFee e\<rparr>)"

datatype disposition = Ack | Nak | Term

definition stampCostBasis :: "Trade \<Rightarrow> Ledger \<Rightarrow> Trade" where
  \<comment> \<open>the block \<^verbatim>\<open>if trade.Side == domain.SideSell { ... CostBasisForTrade(trade, avgPrice) }\<close>
      shared by the consumer and the import handler\<close>
  "stampCostBasis trade db =
     (if Trade.Side trade = SideSell
      then CostBasisForTrade trade
             (GetAvgEntryPrice (Trade.AccountID trade) (Trade.Symbol trade) (Trade.MarketType trade) db)
      else trade)"

definition handleMessage :: "Env \<Rightarrow> TradeEvent option \<Rightarrow> Ledger \<Rightarrow> disposition \<times> Ledger" where
  \<comment> \<open>the message is its decoded payload, \<open>None\<close> when \<^verbatim>\<open>json.Unmarshal\<close> fails; the result
      is what the consumer answers to the broker\<close>
  "handleMessage env msg db =
     (case msg of
        None \<Rightarrow> (Term, db)
      | Some event \<Rightarrow>
          (case Validate env event of
             Some err \<Rightarrow> (Term, db)
           | None \<Rightarrow>
               (case ToDomain env event of
                  Inl err \<Rightarrow> (Term, db)
                | Inr trade \<Rightarrow>
                    (case GetOrCreateAccount (timeNow env) (Trade.AccountID trade)
                            (InferAccountType (TradeEvent.AccountID event)) db of
                       Inl err \<Rightarrow> (Nak, db)
                     | Inr (acct, db1) \<Rightarrow>
                         (case InsertTradeAndUpdatePosition (stampCostBasis trade db1) db1 of
                            Inl err \<Rightarrow> (Nak, db1)
                          | Inr (inserted, db2) \<Rightarrow> (Ack, db2))))))"

section \<open>Package api: the import endpoint\<close>

record ImportResult =
  TradeID :: string
  Status :: string
  Error :: string

record ImportResponse =
  Total :: nat
  Inserted :: nat
  Duplicates :: nat
  Errors :: nat
  Results :: "ImportResult list"

datatype reply = ErrorReply string | ImportReply ImportResponse

definition errorText :: "error \<Rightarrow> string" where
  \<comment> \<open>\<^verbatim>\<open>err.Error()\<close>, without the wrapping prefixes\<close>
  "errorText e =
     (case e of
        UniqueViolation c \<Rightarrow> ''duplicate key value violates unique constraint '' @ c
      | ForeignKeyViolation c \<Rightarrow> ''violates foreign key constraint '' @ c
      | InvalidCursor c \<Rightarrow> ''invalid cursor: '' @ c
      | InvalidTimestamp c \<Rightarrow> ''parse timestamp: '' @ c
      | ValueOutOfRange c \<Rightarrow> ''value out of range for int4: '' @ c)"

definition failed :: "TradeEvent \<Rightarrow> string \<Rightarrow> ImportResponse \<Rightarrow> ImportResponse" where
  \<comment> \<open>the four statements before each \<^verbatim>\<open>continue\<close>\<close>
  "failed event msg resp =
     resp\<lparr>Errors := Errors resp + 1,
          Results := Results resp
            @ [\<lparr>ImportResult.TradeID = TradeEvent.TradeID event, ImportResult.Status = ''error'',
                Error = msg\<rparr>]\<rparr>"

definition addKey :: "string \<Rightarrow> string list \<Rightarrow> string list" where
  \<comment> \<open>\<^verbatim>\<open>affectedAccounts[k] = true\<close> on the keys of the map, kept in insertion order\<close>
  "addKey k ks = (if k \<in> set ks then ks else ks @ [k])"

definition importEvent :: "Env \<Rightarrow> TradeEvent \<Rightarrow> ImportResponse \<times> string list \<times> Ledger
                     \<Rightarrow> ImportResponse \<times> string list \<times> Ledger" where
  \<comment> \<open>the body of the loop \<^verbatim>\<open>for _, event := range req.Trades\<close>; the state is the response,
      the keys of \<^verbatim>\<open>affectedAccounts\<close> and the database\<close>
  "importEvent env event st =
     (case st of (resp, affected, db) \<Rightarrow>
       (case ToDomain env event of
          Inl err \<Rightarrow> (failed event (errorText err) resp, affected, db)
        | Inr trade \<Rightarrow>
            (case GetOrCreateAccount (timeNow env) (Trade.AccountID trade)
                    (InferAccountType (TradeEvent.AccountID event)) db of
               Inl err \<Rightarrow>
                 (failed event (''account setup failed: '' @ errorText err) resp, affected, db)
             | Inr (acct, db1) \<Rightarrow>
                 (case InsertTradeAndUpdatePosition (stampCostBasis trade db1) db1 of
                    Inl err \<Rightarrow> (failed event (errorText err) resp, affected, db1)
                  | Inr (inserted, db2) \<Rightarrow>
                      if inserted then
                        (resp\<lparr>Inserted := Inserted resp + 1,
                              Results := Results resp
                                @ [\<lparr>ImportResult.TradeID = TradeEvent.TradeID event,
                                    ImportResult.Status = ''inserted'', Error = []\<rparr>]\<rparr>,
                         addKey (Trade.AccountID trade) affected, db2)
                      else
                        (resp\<lparr>Duplicates := Duplicates resp + 1,
                              Results := Results resp
                                @ [\<lparr>ImportResult.TradeID = TradeEvent.TradeID event,
                                    ImportResult.Status = ''duplicate'', Error = []\<rparr>]\<rparr>,
                         affected, db2)))))"

fun importLoop :: "Env \<Rightarrow> TradeEvent list \<Rightarrow> ImportResponse \<times> string list \<times> Ledger
                     \<Rightarrow> ImportResponse \<times> string list \<times> Ledger" where
  "importLoop env [] st = st"
| "importLoop env (event # events) st = importLoop env events (importEvent env event st)"

fun rebuildAffected :: "string list \<Rightarrow> Ledger \<Rightarrow> Ledger" where
  \<comment> \<open>the loop \<^verbatim>\<open>for accountID := range affectedAccounts\<close>: a failed rebuild is logged and
      rolled back\<close>
  "rebuildAffected [] db = db"
| "rebuildAffected (accountID # rest) db =
     (case RebuildPositions accountID db of
        Inl err \<Rightarrow> rebuildAffected rest db
      | Inr db' \<Rightarrow> rebuildAffected rest db')"

fun firstInvalid :: "Env \<Rightarrow> nat \<Rightarrow> TradeEvent list \<Rightarrow> (nat \<times> TradeEvent \<times> string) option" where
  \<comment> \<open>the loop that validates all trades up front, left at the first error\<close>
  "firstInvalid env i [] = None"
| "firstInvalid env i (event # events) =
     (case Validate env event of
        Some err \<Rightarrow> Some (i, event, err)
      | None \<Rightarrow> firstInvalid env (i + 1) events)"

definition importOrder :: "Env \<Rightarrow> TradeEvent list \<Rightarrow> TradeEvent list" where
  \<comment> \<open>\<^verbatim>\<open>sort.Slice(req.Trades, func(i, j int) bool { return req.Trades[i].Timestamp <
      req.Trades[j].Timestamp })\<close>: the timestamps are compared as strings, byte by byte\<close>
  "importOrder env trades =
     sortSlice env (\<lambda>a b. TradeEvent.Timestamp a < TradeEvent.Timestamp b) trades"

definition StatusOK :: nat where "StatusOK = 200"
definition StatusBadRequest :: nat where "StatusBadRequest = 400"
definition StatusUnprocessableEntity :: nat where "StatusUnprocessableEntity = 422"

definition handleImportTrades :: "Env \<Rightarrow> TradeEvent list option \<Rightarrow> Ledger \<Rightarrow> nat \<times> reply \<times> Ledger" where
  \<comment> \<open>the request is the \<^verbatim>\<open>trades\<close> array of its decoded body, \<open>None\<close> when the JSON decoder
      fails; the result is the HTTP status, the body written and the database\<close>
  "handleImportTrades env req db =
     (case req of
        None \<Rightarrow> (StatusBadRequest, ErrorReply ''invalid JSON'', db)
      | Some trades \<Rightarrow>
          if length trades = 0 then (StatusBadRequest, ErrorReply ''trades array is empty'', db)
          else if length trades > 1000
            then (StatusBadRequest, ErrorReply ''too many trades: max 1000 per request'', db)
          else
            (case firstInvalid env 0 trades of
               Some (i, event, err) \<Rightarrow>
                 (StatusBadRequest,
                  ErrorReply (''trade['' @ formatNat i @ ''] ('' @ TradeEvent.TradeID event @ ''): '' @ err),
                  db)
             | None \<Rightarrow>
                 (let sorted = importOrder env trades;
                      resp0 = \<lparr>Total = length sorted, Inserted = 0, Duplicates = 0, Errors = 0,
                               Results = []\<rparr>;
                      (resp, affected, db1) = importLoop env sorted (resp0, [], db);
                      db2 = rebuildAffected (mapRange env affected) db1;
                      status = (if Errors resp > 0 \<and> Inserted resp = 0
                                then StatusUnprocessableEntity else StatusOK)
                  in (status, ImportReply resp, db2))))"

section \<open>Constraints of the schema as invariants\<close>

definition positionKey :: "Position \<Rightarrow> string \<times> string \<times> MarketType" where
  "positionKey r = (Position.AccountID r, Position.Symbol r, Position.MarketType r)"

definition openRows :: "Ledger \<Rightarrow> Position list" where
  "openRows db = filter (\<lambda>r. Position.Status r = PositionStatusOpen) (ledger_positions db)"

definition openUnique :: "Ledger \<Rightarrow> bool" where
  \<comment> \<open>no two open rows share account, symbol and market type\<close>
  "openUnique db = distinct (map positionKey (openRows db))"

lemma find_None_iff2: "find P xs = None \<longleftrightarrow> (\<forall>x\<in>set xs. \<not> P x)"
  by (induction xs) auto

lemma openPosition_None_key:
  "openPosition a s mt db = None \<longleftrightarrow> (a, s, mt) \<notin> set (map positionKey (openRows db))"
  by (auto simp: openPosition_def openRows_def positionKey_def find_None_iff2 image_iff)

lemma openUnique_insertPosition:
  assumes "insertPosition p db = Inr db'" and "openUnique db"
  shows "openUnique db'"
proof -
  from assms(1) have pos: "ledger_positions db' = ledger_positions db @ [p]"
    and idx: "Position.Status p = PositionStatusOpen \<longrightarrow>
           openPosition (Position.AccountID p) (Position.Symbol p) (Position.MarketType p) db = None"
    by (auto simp: insertPosition_def split: if_splits)
  show ?thesis
  proof (cases "Position.Status p = PositionStatusOpen")
    case True
    with idx have "positionKey p \<notin> set (map positionKey (openRows db))"
      by (simp add: openPosition_None_key positionKey_def)
    with assms(2) True pos show ?thesis
      by (simp add: openUnique_def openRows_def)
  next
    case False
    with assms(2) pos show ?thesis
      by (simp add: openUnique_def openRows_def)
  qed
qed

lemma distinct_keys_update:
  assumes "distinct (map k (filter P xs))"
    and "\<And>x. k (g x) = k x" and "\<And>x. P (g x) \<Longrightarrow> P x"
  shows "distinct (map k (filter P (map g xs)))"
  using assms(1)
proof (induction xs)
  case Nil
  then show ?case by simp
next
  case (Cons x xs)
  have sub: "k ` {y \<in> set (map g xs). P y} \<subseteq> k ` {y \<in> set xs. P y}"
    using assms(2,3) by (auto simp: image_iff)
  show ?case
  proof (cases "P (g x)")
    case True
    then have "P x" using assms(3) by blast
    with Cons have "k x \<notin> k ` {y \<in> set xs. P y}" and "distinct (map k (filter P (map g xs)))"
      by auto
    with sub True show ?thesis
      using assms(2) by auto
  next
    case False
    with Cons show ?thesis by (cases "P x") auto
  qed
qed

lemma openUnique_updatePosition:
  assumes "openUnique db"
    and "\<And>r. positionKey (f r) = positionKey r"
    and "\<And>r. Position.Status (f r) = PositionStatusOpen \<Longrightarrow> Position.Status r = PositionStatusOpen"
  shows "openUnique (updatePosition pid f db)"
proof -
  let ?g = "\<lambda>r. if Position.ID r = pid then f r else r"
  have "distinct (map positionKey
          (filter (\<lambda>r. Position.Status r = PositionStatusOpen) (map ?g (ledger_positions db))))"
    by (rule distinct_keys_update) (use assms in \<open>auto simp: openUnique_def openRows_def split: if_splits\<close>)
  then show ?thesis
    by (simp add: openUnique_def openRows_def updatePosition_def)
qed


lemma openUnique_upsertSpotPosition:
  assumes "upsertSpotPosition t db = Inr db'" and "openUnique db"
  shows "openUnique db'"
proof (cases "openPosition (Trade.AccountID t) (Trade.Symbol t) MarketTypeSpot db")
  case None
  with assms show ?thesis
    by (auto simp: upsertSpotPosition_def Let_def split: if_splits
             elim: openUnique_insertPosition)
next
  case (Some pos)
  with assms(1) obtain f where
    "db' = updatePosition (Position.ID pos) f db"
    "\<And>r. positionKey (f r) = positionKey r"
    "\<And>r. Position.Status (f r) = PositionStatusOpen \<Longrightarrow> Position.Status r = PositionStatusOpen"
    by (fastforce simp: upsertSpotPosition_def Let_def positionKey_def split: if_splits)
  with assms(2) show ?thesis
    by (simp add: openUnique_updatePosition)
qed

lemma openUnique_upsertFuturesPosition:
  assumes "upsertFuturesPosition t db = Inr db'" and "openUnique db"
  shows "openUnique db'"
proof (cases "openPosition (Trade.AccountID t) (Trade.Symbol t) MarketTypeFutures db")
  case None
  with assms show ?thesis
    by (auto simp: upsertFuturesPosition_def Let_def split: if_splits
             elim: openUnique_insertPosition)
next
  case (Some pos)
  with assms(1) obtain f where
    "db' = updatePosition (Position.ID pos) f db"
    "\<And>r. positionKey (f r) = positionKey r"
    "\<And>r. Position.Status (f r) = PositionStatusOpen \<Longrightarrow> Position.Status r = PositionStatusOpen"
    by (fastforce simp: upsertFuturesPosition_def Let_def positionKey_def split: if_splits)
  with assms(2) show ?thesis
    by (simp add: openUnique_updatePosition)
qed


lemma openUnique_UpsertPosition:
  "UpsertPosition t db = Inr db' \<Longrightarrow> openUnique db \<Longrightarrow> openUnique db'"
  using openUnique_upsertSpotPosition openUnique_upsertFuturesPosition
  by (auto simp: UpsertPosition_def split: if_splits)

lemma openUnique_upsertAll:
  "upsertAll ts db = Inr db' \<Longrightarrow> openUnique db \<Longrightarrow> openUnique db'"
  by (induction ts arbitrary: db) (auto split: sum.splits dest: openUnique_UpsertPosition)

lemma openUnique_cong:
  "ledger_positions db' = ledger_positions db \<Longrightarrow> openUnique db' = openUnique db"
  by (simp add: openUnique_def openRows_def)

lemma openUnique_RebuildPositions:
  assumes "RebuildPositions a db = Inr db'" and "openUnique db"
  shows "openUnique db'"
proof -
  let ?tx = "db\<lparr>ledger_positions := filter (\<lambda>r. Position.AccountID r \<noteq> a) (ledger_positions db)\<rparr>"
  have "distinct (map positionKey (filter (\<lambda>r. Position.Status r = PositionStatusOpen)
          (filter (\<lambda>r. Position.AccountID r \<noteq> a) (ledger_positions db))))"
  proof -
    have "filter (\<lambda>r. Position.Status r = PositionStatusOpen)
            (filter (\<lambda>r. Position.AccountID r \<noteq> a) (ledger_positions db))
          = filter (\<lambda>r. Position.AccountID r \<noteq> a) (openRows db)"
      by (simp add: openRows_def conj_commute)
    with assms(2) show ?thesis
      by (simp add: openUnique_def distinct_map_filter)
  qed
  then have "openUnique ?tx"
    by (simp add: openUnique_def openRows_def)
  moreover from assms(1) have "upsertAll (TradesForRebuild a ?tx) ?tx = Inr db'"
    by (simp add: RebuildPositions_def Let_def)
  ultimately show ?thesis
    by (rule openUnique_upsertAll[rotated])
qed

lemma openUnique_InsertTradeAndUpdatePosition:
  assumes "InsertTradeAndUpdatePosition t db = Inr (b, db')" and "openUnique db"
  shows "openUnique db'"
proof (cases "InsertTrade t db")
  case (Inl e)
  with assms(1) show ?thesis by (simp add: InsertTradeAndUpdatePosition_def)
next
  case (Inr r)
  then obtain inserted tx where r: "InsertTrade t db = Inr (inserted, tx)"
    by (cases r) auto
  then have "ledger_positions tx = ledger_positions db"
    by (auto simp: InsertTrade_def split: if_splits)
  with assms(2) have tx: "openUnique tx"
    using openUnique_cong by blast
  show ?thesis
  proof (cases inserted)
    case True
    with assms(1) r have "UpsertPosition t tx = Inr db'"
      by (auto simp: InsertTradeAndUpdatePosition_def split: sum.splits)
    then show ?thesis using tx by (rule openUnique_UpsertPosition)
  next
    case False
    with assms(1) r tx show ?thesis
      by (simp add: InsertTradeAndUpdatePosition_def)
  qed
qed

lemma openUnique_GetOrCreateAccount:
  assumes "GetOrCreateAccount now a ty db = Inr (acct, db')" and "openUnique db"
  shows "openUnique db'"
proof -
  from assms(1) have "ledger_positions db' = ledger_positions db"
    by (auto simp: GetOrCreateAccount_def Let_def split: option.splits)
  with assms(2) show ?thesis
    using openUnique_cong by blast
qed

section \<open>Sequences of operations\<close>

datatype operation =
    Ingest "TradeEvent option"
  | Import "TradeEvent list option"
  | Rebuild string

fun step :: "Env \<Rightarrow> operation \<Rightarrow> Ledger \<Rightarrow> Ledger" where
  \<comment> \<open>a message handed to the consumer, a request to the import endpoint, or a call of
      \<^const>\<open>RebuildPositions\<close>, whose failure is a rollback\<close>
  "step env (Ingest msg) db = snd (handleMessage env msg db)"
| "step env (Import req) db = snd (snd (handleImportTrades env req db))"
| "step env (Rebuild accountID) db =
     (case RebuildPositions accountID db of Inl err \<Rightarrow> db | Inr db' \<Rightarrow> db')"

definition run :: "(Env \<times> operation) list \<Rightarrow> Ledger" where
  \<comment> \<open>the ledger after the operations, each under its own environment, from the empty
      database\<close>
  "run ops = foldl (\<lambda>db (env, op). step env op db) emptyLedger ops"

section \<open>What the handlers do to the database\<close>

definition dbAfterIngest :: "Time \<Rightarrow> AccountType \<Rightarrow> Trade \<Rightarrow> Ledger \<Rightarrow> Ledger" where
  \<comment> \<open>the database after the three calls that the consumer and the import loop share:
      \<^const>\<open>GetOrCreateAccount\<close>, the cost-basis stamp, \<^const>\<open>InsertTradeAndUpdatePosition\<close>\<close>
  "dbAfterIngest now ty trade db =
     (case GetOrCreateAccount now (Trade.AccountID trade) ty db of
        Inl err \<Rightarrow> db
      | Inr (acct, db1) \<Rightarrow>
          (case InsertTradeAndUpdatePosition (stampCostBasis trade db1) db1 of
             Inl err \<Rightarrow> db1
           | Inr (inserted, db2) \<Rightarrow> db2))"

lemma importEvent_db:
  "snd (snd (importEvent env event (resp, affected, db))) =
     (case ToDomain env event of
        Inl err \<Rightarrow> db
      | Inr trade \<Rightarrow>
          dbAfterIngest (timeNow env) (InferAccountType (TradeEvent.AccountID event)) trade db)"
  by (simp add: importEvent_def dbAfterIngest_def split: sum.splits prod.splits)

lemma handleMessage_db:
  "snd (handleMessage env msg db) =
     (case msg of
        None \<Rightarrow> db
      | Some event \<Rightarrow>
          (case Validate env event of
             Some err \<Rightarrow> db
           | None \<Rightarrow>
               (case ToDomain env event of
                  Inl err \<Rightarrow> db
                | Inr trade \<Rightarrow>
                    dbAfterIngest (timeNow env) (InferAccountType (TradeEvent.AccountID event))
                      trade db)))"
  by (simp add: handleMessage_def dbAfterIngest_def split: option.splits sum.splits prod.splits)

lemma dbAfterIngest_preserves:
  assumes P: "P db"
    and acc: "\<And>d acct d'. P d \<Longrightarrow> GetOrCreateAccount now (Trade.AccountID trade) ty d = Inr (acct, d') \<Longrightarrow> P d'"
    and ins: "\<And>d inserted d'. P d \<Longrightarrow>
                InsertTradeAndUpdatePosition (stampCostBasis trade d) d = Inr (inserted, d') \<Longrightarrow> P d'"
  shows "P (dbAfterIngest now ty trade db)"
proof (cases "GetOrCreateAccount now (Trade.AccountID trade) ty db")
  case (Inl err)
  with P show ?thesis by (simp add: dbAfterIngest_def)
next
  case (Inr r)
  then obtain acct db1 where r: "GetOrCreateAccount now (Trade.AccountID trade) ty db = Inr (acct, db1)"
    by (cases r) auto
  from acc[OF P r] have db1: "P db1" .
  show ?thesis
  proof (cases "InsertTradeAndUpdatePosition (stampCostBasis trade db1) db1")
    case (Inl err)
    with r db1 show ?thesis by (simp add: dbAfterIngest_def)
  next
    case (Inr r2)
    then obtain inserted db2 where
      r2: "InsertTradeAndUpdatePosition (stampCostBasis trade db1) db1 = Inr (inserted, db2)"
      by (cases r2) auto
    from ins[OF db1 r2] r r2 show ?thesis by (simp add: dbAfterIngest_def)
  qed
qed

lemma foldl_step_preserves:
  assumes "P db" and "\<And>env op d. (env, op) \<in> set ops \<Longrightarrow> P d \<Longrightarrow> P (step env op d)"
  shows "P (foldl (\<lambda>db (env, op). step env op db) db ops)"
  using assms by (induction ops arbitrary: db) auto

lemma importLoop_preserves:
  assumes "P (snd (snd st))"
    and "\<And>event st'. event \<in> set events \<Longrightarrow> P (snd (snd st')) \<Longrightarrow>
           P (snd (snd (importEvent env event st')))"
  shows "P (snd (snd (importLoop env events st)))"
  using assms by (induction events arbitrary: st) auto


lemma handleImportTrades_db:
  "snd (snd (handleImportTrades env req db)) =
     (case req of
        None \<Rightarrow> db
      | Some trades \<Rightarrow>
          if trades = [] \<or> 1000 < length trades \<or> firstInvalid env 0 trades \<noteq> None then db
          else (let st = importLoop env (importOrder env trades)
                           (\<lparr>Total = length (importOrder env trades), Inserted = 0, Duplicates = 0,
                             Errors = 0, Results = []\<rparr>, [], db)
                in rebuildAffected (mapRange env (fst (snd st))) (snd (snd st))))"
  by (auto simp: handleImportTrades_def Let_def split: option.splits prod.splits)

section \<open>At most one open position per account, symbol and market\<close>

lemma openUnique_dbAfterIngest:
  "openUnique db \<Longrightarrow> openUnique (dbAfterIngest now ty trade db)"
  by (rule dbAfterIngest_preserves[where P = openUnique])
     (blast intro: openUnique_GetOrCreateAccount openUnique_InsertTradeAndUpdatePosition)+

lemma openUnique_handleMessage:
  "openUnique db \<Longrightarrow> openUnique (snd (handleMessage env msg db))"
  by (simp add: handleMessage_db openUnique_dbAfterIngest split: option.splits sum.splits)

lemma openUnique_importEvent:
  assumes "openUnique (snd (snd st))"
  shows "openUnique (snd (snd (importEvent env event st)))"
proof -
  obtain resp affected db where st: "st = (resp, affected, db)"
    by (cases st) auto
  with assms show ?thesis
    by (simp add: importEvent_db openUnique_dbAfterIngest split: sum.splits)
qed

lemma openUnique_importLoop:
  "openUnique (snd (snd st)) \<Longrightarrow> openUnique (snd (snd (importLoop env events st)))"
  by (rule importLoop_preserves) (simp_all add: openUnique_importEvent)

lemma openUnique_rebuildAffected:
  "openUnique db \<Longrightarrow> openUnique (rebuildAffected accts db)"
  by (induction accts arbitrary: db)
     (auto split: sum.splits intro: openUnique_RebuildPositions)

lemma openUnique_handleImportTrades:
  assumes "openUnique db"
  shows "openUnique (snd (snd (handleImportTrades env req db)))"
proof -
  have "openUnique (rebuildAffected accts (snd (snd (importLoop env events (resp0, [], db)))))"
    for accts events resp0
    using assms by (simp add: openUnique_importLoop openUnique_rebuildAffected)
  then show ?thesis
    using assms
    by (simp add: handleImportTrades_db Let_def split: option.splits)
qed

lemma openUnique_step: "openUnique db \<Longrightarrow> openUnique (step env op db)"
  by (cases op)
     (auto simp: openUnique_handleMessage openUnique_handleImportTrades
           split: sum.splits intro: openUnique_RebuildPositions)

lemma openUnique_run: "openUnique (run ops)"
  unfolding run_def
  by (rule foldl_step_preserves)
     (simp_all add: openUnique_def openRows_def emptyLedger_def openUnique_step[unfolded openUnique_def openRows_def])

lemma distinct_map_filter_le_1:
  "distinct (map k xs) \<Longrightarrow> length (filter (\<lambda>x. k x = v) xs) \<le> 1"
  by (induction xs) (auto simp: filter_empty_conv image_iff)

text \<open>
  Claim C5. After any sequence of messages handled by the consumer, requests to the import
  endpoint and rebuilds, started from the empty ledger and each run under any environment,
  at most one position row of a given account, symbol and market type has status open.
\<close>

theorem open_position_unique:
  "length (filter (\<lambda>r. Position.AccountID r = accountID \<and> Position.Symbol r = symb
                        \<and> Position.MarketType r = marketType
                        \<and> Position.Status r = PositionStatusOpen)
             (ledger_positions (run ops))) \<le> 1"
proof -
  have "filter (\<lambda>r. Position.AccountID r = accountID \<and> Position.Symbol r = symb
                        \<and> Position.MarketType r = marketType
                        \<and> Position.Status r = PositionStatusOpen)
             (ledger_positions (run ops))
        = filter (\<lambda>r. positionKey r = (accountID, symb, marketType)) (openRows (run ops))"
    by (simp add: openRows_def positionKey_def conj_commute conj_left_commute)
  with distinct_map_filter_le_1[of positionKey "openRows (run ops)"] openUnique_run[of ops]
  show ?thesis
    by (simp add: openUnique_def)
qed

section \<open>The status of an import\<close>



lemma firstInvalid_None:
  "firstInvalid env i trades = None \<longleftrightarrow> (\<forall>event\<in>set trades. Validate env event = None)"
  by (induction trades arbitrary: i) (auto split: option.splits)








section \<open>Open spot positions\<close>












lemma update_only_row:
  assumes "distinct (map Position.ID ps)" and "pos \<in> set ps" and "r \<in> set ps"
    and "Position.ID r = Position.ID pos"
  shows "r = pos"
  using assms by (meson distinct_map inj_onD)


lemma openPosition_Some:
  assumes "openPosition a s mt db = Some pos"
  shows "pos \<in> set (ledger_positions db)" "Position.AccountID pos = a" "Position.Symbol pos = s"
    "Position.MarketType pos = mt" "Position.Status pos = PositionStatusOpen"
  using find_Some_mem[of _ "ledger_positions db" pos] assms
  by (auto simp: openPosition_def)



















section \<open>Package time: RFC 3339\<close>

definition isDigit :: "char \<Rightarrow> bool" where
  "isDigit c = (CHR ''0'' \<le> c \<and> c \<le> CHR ''9'')"

definition digitVal :: "char \<Rightarrow> nat" where
  "digitVal c = of_char c - 48"

fun atoiFrom :: "nat \<Rightarrow> string \<Rightarrow> nat" where
  \<comment> \<open>the loop \<^verbatim>\<open>x = x*10 + int(c) - '0'\<close>\<close>
  "atoiFrom x [] = x"
| "atoiFrom x (c # cs) = atoiFrom (x * 10 + digitVal c) cs"

definition parseUint :: "string \<Rightarrow> int \<Rightarrow> int \<Rightarrow> int option" where
  \<comment> \<open>the closure \<^verbatim>\<open>parseUint\<close> of \<^verbatim>\<open>parseRFC3339\<close>: a decimal number within a range\<close>
  "parseUint s lo hi =
     (if list_all isDigit s \<and> lo \<le> int (atoiFrom 0 s) \<and> int (atoiFrom 0 s) \<le> hi
      then Some (int (atoiFrom 0 s)) else None)"

definition isLeap :: "int \<Rightarrow> bool" where
  "isLeap y = (y mod 4 = 0 \<and> (y mod 100 \<noteq> 0 \<or> y mod 400 = 0))"

definition daysIn :: "int \<Rightarrow> int \<Rightarrow> int" where
  "daysIn m y =
     (if m = 2 then (if isLeap y then 29 else 28)
      else if m = 4 \<or> m = 6 \<or> m = 9 \<or> m = 11 then 30 else 31)"

definition slice :: "string \<Rightarrow> nat \<Rightarrow> nat \<Rightarrow> string" where
  \<comment> \<open>\<^verbatim>\<open>s[i:j]\<close>\<close>
  "slice s i j = take (j - i) (drop i s)"

definition parseNanoseconds :: "string \<Rightarrow> int" where
  \<comment> \<open>the value is a period followed by digits; digits after the ninth are dropped, missing
      ones count as zeros\<close>
  "parseNanoseconds v =
     (let ds = take 9 (tl v) in int (atoiFrom 0 ds) * 10 ^ (9 - length ds))"

definition parseZone :: "string \<Rightarrow> int option" where
  \<comment> \<open>the zone of \<^verbatim>\<open>parseRFC3339\<close>: \<^verbatim>\<open>Z\<close> or a sign, hours, a colon and minutes; the result is
      the offset in seconds\<close>
  "parseZone s =
     (if s = ''Z'' then Some 0
      else if length s \<noteq> 6 then None
      else (case (parseUint (slice s 1 3) 0 23, parseUint (slice s 4 6) 0 59) of
              (Some hr, Some mm) \<Rightarrow>
                if (s ! 0 = CHR ''-'' \<or> s ! 0 = CHR ''+'') \<and> s ! 3 = CHR '':''
                then Some (if s ! 0 = CHR ''-'' then - ((hr * 60 + mm) * 60) else (hr * 60 + mm) * 60)
                else None
            | _ \<Rightarrow> None))"

definition parseRFC3339 :: "string \<Rightarrow> Time option" where
  \<comment> \<open>the function \<^verbatim>\<open>parseRFC3339\<close> of package time, which \<^verbatim>\<open>time.Parse\<close> tries first for the
      layouts \<^verbatim>\<open>RFC3339\<close> and \<^verbatim>\<open>RFC3339Nano\<close>; when it succeeds its result is the result of
      \<^verbatim>\<open>time.Parse\<close>\<close>
  "parseRFC3339 s =
     (if length s < 19 then None
      else
        (case parseUint (slice s 0 4) 0 9999 of None \<Rightarrow> None | Some y \<Rightarrow>
        (case parseUint (slice s 5 7) 1 12 of None \<Rightarrow> None | Some mo \<Rightarrow>
        (case parseUint (slice s 8 10) 1 (daysIn mo y) of None \<Rightarrow> None | Some d \<Rightarrow>
        (case parseUint (slice s 11 13) 0 23 of None \<Rightarrow> None | Some h \<Rightarrow>
        (case parseUint (slice s 14 16) 0 59 of None \<Rightarrow> None | Some mi \<Rightarrow>
        (case parseUint (slice s 17 19) 0 59 of None \<Rightarrow> None | Some sec \<Rightarrow>
           if \<not> (s ! 4 = CHR ''-'' \<and> s ! 7 = CHR ''-'' \<and> s ! 10 = CHR ''T''
                   \<and> s ! 13 = CHR '':'' \<and> s ! 16 = CHR '':'') then None
           else
             (let rest = drop 19 s;
                  n = (if 2 \<le> length rest \<and> rest ! 0 = CHR ''.'' \<and> isDigit (rest ! 1)
                       then 1 + length (takeWhile isDigit (tl rest)) else 0);
                  nsec = (if n = 0 then 0 else parseNanoseconds (take n rest))
              in (case parseZone (drop n rest) of
                    None \<Rightarrow> None
                  | Some off \<Rightarrow>
                      Some \<lparr>Year = y, Month = mo, Day = d, Hour = h, Minute = mi, Second = sec,
                            Nanosecond = nsec, ZoneOffset = off\<rparr>)))))))))"

section \<open>Package sort\<close>

fun sift :: "('a \<Rightarrow> 'a \<Rightarrow> bool) \<Rightarrow> 'a \<Rightarrow> 'a list \<Rightarrow> 'a list" where
  \<comment> \<open>the inner loop \<^verbatim>\<open>for j := i; j > a && less(j, j-1); j-- { swap(j, j-1) }\<close>: the element
      at \<open>i\<close> moves left past every element it is less than. The sorted part of the slice is
      held in reverse, its last element first.\<close>
  "sift lt x [] = [x]"
| "sift lt x (y # rs) = (if lt x y then y # sift lt x rs else x # y # rs)"

definition insertionSortLessFunc :: "('a \<Rightarrow> 'a \<Rightarrow> bool) \<Rightarrow> 'a list \<Rightarrow> 'a list" where
  \<comment> \<open>the insertion sort of package sort, which \<^verbatim>\<open>sort.Slice\<close> runs on a slice of at most
      12 elements (Go 1.19 and later; the repository asks for Go 1.24)\<close>
  "insertionSortLessFunc lt xs = rev (foldl (\<lambda>rs x. sift lt x rs) [] xs)"

section \<open>An environment for the examples\<close>

definition exEnv :: Env where
  \<comment> \<open>the first path of \<^verbatim>\<open>time.Parse\<close>, a clock that reads 2025-01-15T10:00:00Z, the
      insertion sort, and map keys visited in the order of their insertion\<close>
  "exEnv = \<lparr>timeParse = (\<lambda>l s. parseRFC3339 s), timeNow = exTime 0,
            sortSlice = insertionSortLessFunc, mapRange = (\<lambda>ks. ks)\<rparr>"

definition exEvent :: "string \<Rightarrow> string \<Rightarrow> real \<Rightarrow> real \<Rightarrow> real \<Rightarrow> string \<Rightarrow> TradeEvent" where
  \<comment> \<open>a spot event for BTC-USD of account live: id, side, quantity, price, fee and timestamp
      as given\<close>
  "exEvent tid sd q p f ts =
     \<lparr>TradeEvent.TradeID = tid, TradeEvent.AccountID = ''live'', TradeEvent.Symbol = ''BTC-USD'',
      TradeEvent.Side = sd, TradeEvent.Quantity = q, TradeEvent.Price = p, TradeEvent.Fee = f,
      TradeEvent.FeeCurrency = ''USD'', TradeEvent.MarketType = ''spot'',
      TradeEvent.Timestamp = ts, TradeEvent.Leverage = None, TradeEvent.Margin = None,
      TradeEvent.LiquidationPrice = None, TradeEvent.FundingFee = None\<rparr>"

section \<open>The order of an import\<close>

lemma mset_sift: "mset (sift lt x rs) = add_mset x (mset rs)"
  by (induction rs) auto

lemma mset_insertionSortLessFunc: "mset (insertionSortLessFunc lt xs) = mset xs"
proof -
  have "mset (foldl (\<lambda>rs x. sift lt x rs) rs xs) = mset rs + mset xs" for rs
    by (induction xs arbitrary: rs) (auto simp: mset_sift)
  then show ?thesis by (simp add: insertionSortLessFunc_def)
qed

lemma set_sift: "set (sift lt x rs) = insert x (set rs)"
  by (induction rs) auto

lemma sorted_sift:
  fixes k :: "'a \<Rightarrow> 'b::linorder"
  assumes "sorted (rev (map k rs))"
  shows "sorted (rev (map k (sift (\<lambda>a b. k a < k b) x rs)))"
  using assms
proof (induction rs)
  case Nil
  then show ?case by simp
next
  case (Cons y rs)
  then show ?case
    by (auto simp: sorted_append set_sift)
qed

lemma sorted_insertionSortLessFunc:
  fixes k :: "'a \<Rightarrow> 'b::linorder"
  shows "sorted (map k (insertionSortLessFunc (\<lambda>a b. k a < k b) xs))"
proof -
  have "sorted (rev (map k rs)) \<Longrightarrow>
        sorted (rev (map k (foldl (\<lambda>rs x. sift (\<lambda>a b. k a < k b) x rs) rs xs)))" for rs
    by (induction xs arbitrary: rs) (auto simp: sorted_sift)
  from this[of "[]"] show ?thesis
    by (simp add: insertionSortLessFunc_def rev_map)
qed

lemma filter_sift:
  fixes k :: "'a \<Rightarrow> 'b::linorder"
  shows "filter (\<lambda>e. k e = v) (sift (\<lambda>a b. k a < k b) x rs)
         = (if k x = v then x # filter (\<lambda>e. k e = v) rs else filter (\<lambda>e. k e = v) rs)"
  by (induction rs) auto

lemma stable_insertionSortLessFunc:
  fixes k :: "'a \<Rightarrow> 'b::linorder"
  shows "filter (\<lambda>e. k e = v) (insertionSortLessFunc (\<lambda>a b. k a < k b) xs) = filter (\<lambda>e. k e = v) xs"
proof -
  have "filter (\<lambda>e. k e = v) (rev (foldl (\<lambda>rs x. sift (\<lambda>a b. k a < k b) x rs) rs xs))
        = filter (\<lambda>e. k e = v) (rev rs) @ filter (\<lambda>e. k e = v) xs" for rs
    by (induction xs arbitrary: rs) (simp_all add: filter_sift rev_filter[symmetric])
  from this[of "[]"] show ?thesis
    by (simp add: insertionSortLessFunc_def)
qed

lemma Results_importEvent:
  "map ImportResult.TradeID (Results (fst (importEvent env event st)))
     = map ImportResult.TradeID (Results (fst st)) @ [TradeEvent.TradeID event]"
  by (cases st)
     (auto simp: importEvent_def failed_def split: sum.splits prod.splits)

lemma Results_importLoop:
  "map ImportResult.TradeID (Results (fst (importLoop env events st)))
     = map ImportResult.TradeID (Results (fst st)) @ map TradeEvent.TradeID events"
  by (induction events arbitrary: st) (simp_all add: Results_importEvent)

text \<open>
  What the sort of the import handler does achieve. Before any event is processed, the
  handler sorts the batch with \<^verbatim>\<open>sort.Slice\<close> under the comparison of the timestamp strings,
  byte by byte. For a batch of at most 12 valid events, on which \<^verbatim>\<open>sort.Slice\<close> runs its
  insertion sort, the order of processing is ascending in the timestamp strings, is a
  permutation of the batch, keeps the input order of events whose strings are equal, and
  is the order of the per-trade results. It is the order of the strings, not of the
  instants they denote.
\<close>

theorem import_order:
  assumes go: "\<And>lt xs. length xs \<le> 12 \<Longrightarrow> sortSlice env lt xs = insertionSortLessFunc lt xs"
    and small: "length trades \<le> 12"
    and valid: "trades \<noteq> []" "\<forall>event\<in>set trades. Validate env event = None"
  shows "sorted (map TradeEvent.Timestamp (importOrder env trades))
         \<and> mset (importOrder env trades) = mset trades
         \<and> (\<forall>ts. filter (\<lambda>e. TradeEvent.Timestamp e = ts) (importOrder env trades)
                  = filter (\<lambda>e. TradeEvent.Timestamp e = ts) trades)
         \<and> (\<exists>resp. fst (snd (handleImportTrades env (Some trades) db)) = ImportReply resp
                \<and> map ImportResult.TradeID (Results resp)
                     = map TradeEvent.TradeID (importOrder env trades))"
proof -
  have ord: "importOrder env trades
             = insertionSortLessFunc (\<lambda>a b. TradeEvent.Timestamp a < TradeEvent.Timestamp b) trades"
    using go[OF small] by (simp add: importOrder_def)
  have ok: "firstInvalid env 0 trades = None"
    using valid(2) firstInvalid_None[of env 0 trades] by simp
  have "fst (snd (handleImportTrades env (Some trades) db))
        = ImportReply (fst (importLoop env (importOrder env trades)
            (\<lparr>Total = length (importOrder env trades), Inserted = 0, Duplicates = 0,
              Errors = 0, Results = []\<rparr>, [], db)))"
    using valid(1) small ok
    by (simp add: handleImportTrades_def Let_def split: prod.splits)
  then show ?thesis
    unfolding ord
    by (simp add: sorted_insertionSortLessFunc mset_insertionSortLessFunc
          stable_insertionSortLessFunc Results_importLoop)
qed

lemma parse_ex1:
  "parseRFC3339 ''2025-01-15T10:00:00Z''
     = Some \<lparr>Year = 2025, Month = 1, Day = 15, Hour = 10, Minute = 0, Second = 0,
             Nanosecond = 0, ZoneOffset = 0\<rparr>"
  by (simp add: parseRFC3339_def parseUint_def slice_def isDigit_def digitVal_def daysIn_def
        parseZone_def Let_def)

lemma parse_ex2:
  "parseRFC3339 ''2025-01-15T10:00:00.5+02:00''
     = Some \<lparr>Year = 2025, Month = 1, Day = 15, Hour = 10, Minute = 0, Second = 0,
             Nanosecond = 500000000, ZoneOffset = 7200\<rparr>"
  by (simp add: parseRFC3339_def parseUint_def slice_def isDigit_def digitVal_def daysIn_def
        parseZone_def parseNanoseconds_def Let_def)


definition c7e1 :: TradeEvent where "c7e1 = exEvent ''t1'' ''buy'' 1 40000 20 ''2024-06-01T10:00:00Z''"
definition c7e2 :: TradeEvent where "c7e2 = exEvent ''t2'' ''buy'' (1/2) 42000 (21/2) ''2024-06-15T10:00:00Z''"

lemmas parse_eval = parseRFC3339_def parseUint_def slice_def isDigit_def digitVal_def daysIn_def
        parseZone_def parseNanoseconds_def isLeap_def

lemmas store_eval = InsertTradeAndUpdatePosition_def InsertTrade_def UpsertPosition_def
  upsertSpotPosition_def upsertFuturesPosition_def insertPosition_def updatePosition_def
  openPosition_def accountExists_def GetOrCreateAccount_def GetAvgEntryPrice_def
  CostBasisForTrade_def stampCostBasis_def formatInt_def digitChar_def Unix_def
  daysSinceEpoch_def InferAccountType_def int4_def

lemmas event_eval = Validate_def ToDomain_def sideOf_def marketTypeOf_def exEvent_def exEnv_def




definition c6a :: TradeEvent where "c6a = exEvent ''a'' ''buy'' 1 100 0 ''2025-01-15T10:00:00Z''"
definition c6b :: TradeEvent where "c6b = exEvent ''b'' ''sell'' 1 110 0 ''2025-01-15T10:00:00.5Z''"
definition c6c :: TradeEvent where "c6c = exEvent ''c'' ''buy'' 1 100 0 ''2025-01-15T09:00:00Z''"

text \<open>
  Claim C6 has the events of a batch processed in chronological order of event time, and
  the handler announces \<^verbatim>\<open>Sort by timestamp ascending for correct position calculation\<close>.
  The code compares the timestamp strings. The buy \<open>a\<close> and the sell \<open>b\<close>, half a second
  later, both pass validation; as strings, \<^verbatim>\<open>2025-01-15T10:00:00.5Z\<close> is below
  \<^verbatim>\<open>2025-01-15T10:00:00Z\<close>, since a period is below the letter Z. The handler processes
  \<open>b\<close> first, although the request lists the two in the order of their instants: the
  results come back in the order \<open>b\<close>, \<open>a\<close>, and the sell is stored with cost basis 0 and
  realized P&L 110, the figures of a sale without a position, where the sale after the
  purchase at 100 has cost basis 100 and realized P&L 10.
\<close>

theorem import_order_counterexample:
  "Validate exEnv c6a = None \<and> Validate exEnv c6b = None
   \<and> map_option UnixNano (timeParse exEnv RFC3339 (TradeEvent.Timestamp c6a)) = Some 1736935200000000000
   \<and> map_option UnixNano (timeParse exEnv RFC3339 (TradeEvent.Timestamp c6b)) = Some 1736935200500000000
   \<and> importOrder exEnv [c6a, c6b] = [c6b, c6a]
   \<and> (\<exists>resp. fst (snd (handleImportTrades exEnv (Some [c6a, c6b]) emptyLedger)) = ImportReply resp
          \<and> map ImportResult.TradeID (Results resp) = [''b'', ''a''])
   \<and> map (\<lambda>t. (Trade.TradeID t, Trade.CostBasis t, Trade.RealizedPnL t))
         (ledger_trades (snd (snd (handleImportTrades exEnv (Some [c6a, c6b]) emptyLedger))))
       = [(''b'', 0, 110), (''a'', 100, 0)]"
proof -
  have 1: "Validate exEnv c6a = None \<and> Validate exEnv c6b = None
   \<and> map_option UnixNano (timeParse exEnv RFC3339 (TradeEvent.Timestamp c6a)) = Some 1736935200000000000
   \<and> map_option UnixNano (timeParse exEnv RFC3339 (TradeEvent.Timestamp c6b)) = Some 1736935200500000000
   \<and> importOrder exEnv [c6a, c6b] = [c6b, c6a]"
    by (simp add: importOrder_def insertionSortLessFunc_def c6a_def c6b_def event_eval parse_eval
          UnixNano_def Unix_def daysSinceEpoch_def Let_def)
  have 2: "\<exists>resp. fst (snd (handleImportTrades exEnv (Some [c6a, c6b]) emptyLedger)) = ImportReply resp
          \<and> map ImportResult.TradeID (Results resp) = [''b'', ''a'']"
    by (simp add: handleImportTrades_def importOrder_def insertionSortLessFunc_def importEvent_def
          c6a_def c6b_def event_eval parse_eval store_eval emptyLedger_def Let_def
          RebuildPositions_def TradesForRebuild_def pgMicros_def addKey_def failed_def)
  have 3: "map (\<lambda>t. (Trade.TradeID t, Trade.CostBasis t, Trade.RealizedPnL t))
         (ledger_trades (snd (snd (handleImportTrades exEnv (Some [c6a, c6b]) emptyLedger))))
       = [(''b'', 0, 110), (''a'', 100, 0)]"
    by (simp add: handleImportTrades_def importOrder_def insertionSortLessFunc_def importEvent_def
          c6a_def c6b_def event_eval parse_eval store_eval emptyLedger_def Let_def
          RebuildPositions_def TradesForRebuild_def pgMicros_def addKey_def failed_def)
  from 1 2 3 show ?thesis by blast
qed

theorem import_order_witness:
  "length [c6a, c6c] \<le> 12 \<and> Validate exEnv c6a = None \<and> Validate exEnv c6c = None
   \<and> importOrder exEnv [c6a, c6c] = [c6c, c6a]
   \<and> sorted (map TradeEvent.Timestamp (importOrder exEnv [c6a, c6c]))
   \<and> mset (importOrder exEnv [c6a, c6c]) = mset [c6a, c6c]
   \<and> (\<exists>resp. fst (snd (handleImportTrades exEnv (Some [c6a, c6c]) emptyLedger)) = ImportReply resp
          \<and> map ImportResult.TradeID (Results resp) = [''c'', ''a''])"
proof -
  have go: "\<And>lt xs. length xs \<le> 12 \<Longrightarrow> sortSlice exEnv lt xs = insertionSortLessFunc lt xs"
    by (simp add: exEnv_def)
  have small: "length [c6a, c6c] \<le> 12" by simp
  have v: "Validate exEnv c6a = None" "Validate exEnv c6c = None"
    by (simp_all add: c6a_def c6c_def event_eval parse_eval Let_def)
  then have valid: "[c6a, c6c] \<noteq> []" "\<forall>event\<in>set [c6a, c6c]. Validate exEnv event = None"
    by simp_all
  have ord: "importOrder exEnv [c6a, c6c] = [c6c, c6a]"
    by (simp add: importOrder_def insertionSortLessFunc_def c6a_def c6c_def exEvent_def exEnv_def)
  from import_order[OF go small valid, of emptyLedger] v ord show ?thesis
    by (simp add: c6a_def c6c_def exEvent_def)
qed


section \<open>Rebuild and replay\<close>

definition replay :: "Trade list \<Rightarrow> Ledger \<Rightarrow> Ledger" where
  \<comment> \<open>the trades processed one after the other by \<^const>\<open>InsertTradeAndUpdatePosition\<close>\<close>
  "replay ts db = foldl (\<lambda>d t. stateAfter t d) db ts"

definition withoutAccount :: "string \<Rightarrow> Ledger \<Rightarrow> Ledger" where
  \<comment> \<open>the ledger before the account traded: its trades and positions taken out\<close>
  "withoutAccount a db =
     db\<lparr>ledger_trades := filter (\<lambda>t. Trade.AccountID t \<noteq> a) (ledger_trades db),
        ledger_positions := filter (\<lambda>r. Position.AccountID r \<noteq> a) (ledger_positions db)\<rparr>"

definition wellFormed :: "Ledger \<Rightarrow> bool" where
  \<comment> \<open>the primary keys of trades and positions, the foreign key from trades to accounts
      and the type \<^verbatim>\<open>INTEGER\<close> of the column \<^verbatim>\<open>leverage\<close> of the trades\<close>
  "wellFormed db =
     (distinct (map Trade.TradeID (ledger_trades db))
      \<and> distinct (map Position.ID (ledger_positions db))
      \<and> list_all (\<lambda>t. accountExists (Trade.AccountID t) db) (ledger_trades db)
      \<and> list_all (\<lambda>t. int4 (Trade.Leverage t)) (ledger_trades db))"

lemma openPosition_trades [simp]:
  "openPosition a s mt (db\<lparr>ledger_trades := x\<rparr>) = openPosition a s mt db"
  by (simp add: openPosition_def)

lemma updatePosition_trades:
  "updatePosition pid f (db\<lparr>ledger_trades := x\<rparr>) = (updatePosition pid f db)\<lparr>ledger_trades := x\<rparr>"
  by (simp add: updatePosition_def)

lemma insertPosition_trades:
  "insertPosition p (db\<lparr>ledger_trades := x\<rparr>)
     = map_sum id (\<lambda>d. d\<lparr>ledger_trades := x\<rparr>) (insertPosition p db)"
  by (auto simp: insertPosition_def accountExists_def)

lemma upsertSpotPosition_trades:
  "upsertSpotPosition t (db\<lparr>ledger_trades := x\<rparr>)
     = map_sum id (\<lambda>d. d\<lparr>ledger_trades := x\<rparr>) (upsertSpotPosition t db)"
  by (simp add: upsertSpotPosition_def insertPosition_trades updatePosition_trades Let_def
           split: option.splits)

lemma upsertFuturesPosition_trades:
  "upsertFuturesPosition t (db\<lparr>ledger_trades := x\<rparr>)
     = map_sum id (\<lambda>d. d\<lparr>ledger_trades := x\<rparr>) (upsertFuturesPosition t db)"
  by (simp add: upsertFuturesPosition_def insertPosition_trades updatePosition_trades Let_def
           split: option.splits)

lemma UpsertPosition_trades:
  "UpsertPosition t (db\<lparr>ledger_trades := x\<rparr>)
     = map_sum id (\<lambda>d. d\<lparr>ledger_trades := x\<rparr>) (UpsertPosition t db)"
  by (simp add: UpsertPosition_def upsertSpotPosition_trades upsertFuturesPosition_trades)

lemma stateAfter_new_trade:
  assumes up: "UpsertPosition t tx = Inr tx1"
    and new: "Trade.TradeID t \<notin> set (map Trade.TradeID (ledger_trades d))"
    and acc: "accountExists (Trade.AccountID t) d"
    and same: "ledger_positions d = ledger_positions tx" "ledger_accounts d = ledger_accounts tx"
    and lev: "int4 (Trade.Leverage t)"
  shows "stateAfter t d = tx1\<lparr>ledger_trades := ledger_trades d @ [t]\<rparr>"
proof -
  have d: "d\<lparr>ledger_trades := ledger_trades d @ [t]\<rparr> = tx\<lparr>ledger_trades := ledger_trades d @ [t]\<rparr>"
    using same by simp
  have "UpsertPosition t (d\<lparr>ledger_trades := ledger_trades d @ [t]\<rparr>)
          = Inr (tx1\<lparr>ledger_trades := ledger_trades d @ [t]\<rparr>)"
    unfolding d UpsertPosition_trades using up by simp
  with new acc lev show ?thesis
    by (simp add: stateAfter_def InsertTradeAndUpdatePosition_def InsertTrade_def)
qed

lemma replay_upsertAll:
  assumes "upsertAll ts tx = Inr tx'"
    and "distinct (map Trade.TradeID ts)"
    and "set (map Trade.TradeID ts) \<inter> set (map Trade.TradeID (ledger_trades d)) = {}"
    and "\<forall>t\<in>set ts. accountExists (Trade.AccountID t) d"
    and "ledger_positions d = ledger_positions tx" and "ledger_accounts d = ledger_accounts tx"
    and "\<forall>t\<in>set ts. int4 (Trade.Leverage t)"
  shows "replay ts d = tx'\<lparr>ledger_trades := ledger_trades d @ ts\<rparr>"
  using assms
proof (induction ts arbitrary: tx d)
  case Nil
  then show ?case by (simp add: replay_def)
next
  case (Cons t ts)
  from Cons.prems(1) obtain tx1 where
    up: "UpsertPosition t tx = Inr tx1" and rest: "upsertAll ts tx1 = Inr tx'"
    by (auto split: sum.splits)
  let ?d1 = "tx1\<lparr>ledger_trades := ledger_trades d @ [t]\<rparr>"
  from Cons.prems(3,4) have new: "Trade.TradeID t \<notin> set (map Trade.TradeID (ledger_trades d))"
    and acc: "accountExists (Trade.AccountID t) d"
    by auto
  from Cons.prems(7) have lev: "int4 (Trade.Leverage t)" and levs: "\<forall>t\<in>set ts. int4 (Trade.Leverage t)"
    by simp_all
  from stateAfter_new_trade[OF up new acc Cons.prems(5,6) lev] have st: "stateAfter t d = ?d1" .
  from UpsertPosition_frame[OF up] Cons.prems(6)
  have accs: "ledger_accounts ?d1 = ledger_accounts d" by simp
  have 1: "distinct (map Trade.TradeID ts)" using Cons.prems(2) by simp
  have 2: "set (map Trade.TradeID ts) \<inter> set (map Trade.TradeID (ledger_trades ?d1)) = {}"
    using Cons.prems(2,3) by auto
  have 3: "\<forall>t\<in>set ts. accountExists (Trade.AccountID t) ?d1"
    using Cons.prems(4) accs by (simp add: accountExists_def)
  have "replay ts ?d1 = tx'\<lparr>ledger_trades := ledger_trades ?d1 @ ts\<rparr>"
    by (rule Cons.IH[OF rest 1 2 3 _ _ levs]) simp_all
  with st show ?case
    by (simp add: replay_def)
qed

lemma filter_map_unchanged:
  "\<forall>r\<in>set ps. P (g r) = P r \<and> (P r \<longrightarrow> g r = r) \<Longrightarrow> filter P (map g ps) = filter P ps"
  by (induction ps) auto

lemma insertPosition_other_accounts:
  assumes "insertPosition p db = Inr db'" and "distinct (map Position.ID (ledger_positions db))"
  shows "distinct (map Position.ID (ledger_positions db'))
         \<and> filter (\<lambda>r. Position.AccountID r \<noteq> Position.AccountID p) (ledger_positions db')
             = filter (\<lambda>r. Position.AccountID r \<noteq> Position.AccountID p) (ledger_positions db)"
  using assms by (auto simp: insertPosition_def split: if_splits)

lemma updatePosition_other_accounts:
  assumes pk: "distinct (map Position.ID (ledger_positions db))"
    and pos: "pos \<in> set (ledger_positions db)"
    and ident: "\<And>r. Position.ID (f r) = Position.ID r"
    and acct: "\<And>r. Position.AccountID (f r) = Position.AccountID r"
  shows "distinct (map Position.ID (ledger_positions (updatePosition (Position.ID pos) f db)))
         \<and> filter (\<lambda>r. Position.AccountID r \<noteq> Position.AccountID pos)
              (ledger_positions (updatePosition (Position.ID pos) f db))
             = filter (\<lambda>r. Position.AccountID r \<noteq> Position.AccountID pos) (ledger_positions db)"
proof -
  let ?g = "\<lambda>r. if Position.ID r = Position.ID pos then f r else r"
  have pos': "ledger_positions (updatePosition (Position.ID pos) f db) = map ?g (ledger_positions db)"
    by (simp add: updatePosition_def)
  have "Position.ID (?g r) = Position.ID r" for r
    using ident by simp
  then have ids: "map Position.ID (map ?g (ledger_positions db)) = map Position.ID (ledger_positions db)"
    by (induction "ledger_positions db") (simp_all del: map_map add: list.map_comp comp_def)
  have 1: "distinct (map Position.ID (map ?g (ledger_positions db)))"
    unfolding ids using pk .
  have "\<forall>r\<in>set (ledger_positions db).
          (Position.AccountID (?g r) \<noteq> Position.AccountID pos) = (Position.AccountID r \<noteq> Position.AccountID pos)
          \<and> (Position.AccountID r \<noteq> Position.AccountID pos \<longrightarrow> ?g r = r)"
    using acct update_only_row[OF pk pos] by auto
  from filter_map_unchanged[where P = "\<lambda>r. Position.AccountID r \<noteq> Position.AccountID pos", OF this]
  have 2: "filter (\<lambda>r. Position.AccountID r \<noteq> Position.AccountID pos) (map ?g (ledger_positions db))
             = filter (\<lambda>r. Position.AccountID r \<noteq> Position.AccountID pos) (ledger_positions db)" .
  from 1 2 show ?thesis
    unfolding pos' by blast
qed

lemma upsertSpotPosition_shape:
  assumes "upsertSpotPosition t tx = Inr tx1"
  shows "tx1 = tx
         \<or> (\<exists>p. insertPosition p tx = Inr tx1 \<and> Position.AccountID p = Trade.AccountID t)
         \<or> (\<exists>pos f. openPosition (Trade.AccountID t) (Trade.Symbol t) MarketTypeSpot tx = Some pos
               \<and> tx1 = updatePosition (Position.ID pos) f tx
               \<and> (\<forall>r. Position.ID (f r) = Position.ID r)
               \<and> (\<forall>r. Position.AccountID (f r) = Position.AccountID r))"
proof (cases "openPosition (Trade.AccountID t) (Trade.Symbol t) MarketTypeSpot tx")
  case None
  with assms show ?thesis
    by (cases "Trade.Side t = SideBuy") (auto simp: upsertSpotPosition_def Let_def)
next
  case (Some pos)
  with assms have "\<exists>f. tx1 = updatePosition (Position.ID pos) f tx
               \<and> (\<forall>r. Position.ID (f r) = Position.ID r)
               \<and> (\<forall>r. Position.AccountID (f r) = Position.AccountID r)"
    by (fastforce simp: upsertSpotPosition_def Let_def split: if_splits)
  with Some show ?thesis by blast
qed

lemma upsertFuturesPosition_shape:
  assumes "upsertFuturesPosition t tx = Inr tx1"
  shows "tx1 = tx
         \<or> (\<exists>p. insertPosition p tx = Inr tx1 \<and> Position.AccountID p = Trade.AccountID t)
         \<or> (\<exists>pos f. openPosition (Trade.AccountID t) (Trade.Symbol t) MarketTypeFutures tx = Some pos
               \<and> tx1 = updatePosition (Position.ID pos) f tx
               \<and> (\<forall>r. Position.ID (f r) = Position.ID r)
               \<and> (\<forall>r. Position.AccountID (f r) = Position.AccountID r))"
proof (cases "openPosition (Trade.AccountID t) (Trade.Symbol t) MarketTypeFutures tx")
  case None
  with assms show ?thesis
    by (auto simp: upsertFuturesPosition_def Let_def split: if_splits)
next
  case (Some pos)
  with assms have "\<exists>f. tx1 = updatePosition (Position.ID pos) f tx
               \<and> (\<forall>r. Position.ID (f r) = Position.ID r)
               \<and> (\<forall>r. Position.AccountID (f r) = Position.AccountID r)"
    by (fastforce simp: upsertFuturesPosition_def Let_def split: if_splits)
  with Some show ?thesis by blast
qed

lemma UpsertPosition_other_accounts:
  assumes up: "UpsertPosition t tx = Inr tx1"
    and pk: "distinct (map Position.ID (ledger_positions tx))"
  shows "distinct (map Position.ID (ledger_positions tx1))
         \<and> filter (\<lambda>r. Position.AccountID r \<noteq> Trade.AccountID t) (ledger_positions tx1)
             = filter (\<lambda>r. Position.AccountID r \<noteq> Trade.AccountID t) (ledger_positions tx)"
proof -
  from up have "tx1 = tx
         \<or> (\<exists>p. insertPosition p tx = Inr tx1 \<and> Position.AccountID p = Trade.AccountID t)
         \<or> (\<exists>pos f mt. openPosition (Trade.AccountID t) (Trade.Symbol t) mt tx = Some pos
               \<and> tx1 = updatePosition (Position.ID pos) f tx
               \<and> (\<forall>r. Position.ID (f r) = Position.ID r)
               \<and> (\<forall>r. Position.AccountID (f r) = Position.AccountID r))"
    using upsertSpotPosition_shape[of t tx tx1] upsertFuturesPosition_shape[of t tx tx1]
    by (cases "Trade.MarketType t = MarketTypeSpot") (simp_all add: UpsertPosition_def, blast+)
  then consider "tx1 = tx"
    | p where "insertPosition p tx = Inr tx1" "Position.AccountID p = Trade.AccountID t"
    | pos f mt where "openPosition (Trade.AccountID t) (Trade.Symbol t) mt tx = Some pos"
        "tx1 = updatePosition (Position.ID pos) f tx"
        "\<And>r. Position.ID (f r) = Position.ID r"
        "\<And>r. Position.AccountID (f r) = Position.AccountID r"
    by blast
  then show ?thesis
  proof cases
    case 1
    with pk show ?thesis by simp
  next
    case 2
    with insertPosition_other_accounts[OF 2(1) pk] show ?thesis by simp
  next
    case 3
    note op = openPosition_Some[OF 3(1)]
    from updatePosition_other_accounts[OF pk op(1) 3(3,4)] 3(2) op(2) show ?thesis
      by simp
  qed
qed

lemma upsertAll_other_accounts:
  assumes "upsertAll ts tx = Inr tx'" and "distinct (map Position.ID (ledger_positions tx))"
    and "\<forall>t\<in>set ts. Trade.AccountID t = a"
  shows "filter (\<lambda>r. Position.AccountID r \<noteq> a) (ledger_positions tx')
           = filter (\<lambda>r. Position.AccountID r \<noteq> a) (ledger_positions tx)"
  using assms
proof (induction ts arbitrary: tx)
  case Nil
  then show ?case by simp
next
  case (Cons t ts)
  from Cons.prems(1) obtain tx1 where
    up: "UpsertPosition t tx = Inr tx1" and rest: "upsertAll ts tx1 = Inr tx'"
    by (auto split: sum.splits)
  from UpsertPosition_other_accounts[OF up Cons.prems(2)] Cons.prems(3)
  have 1: "distinct (map Position.ID (ledger_positions tx1))"
    and 2: "filter (\<lambda>r. Position.AccountID r \<noteq> a) (ledger_positions tx1)
             = filter (\<lambda>r. Position.AccountID r \<noteq> a) (ledger_positions tx)"
    by simp_all
  from Cons.IH[OF rest 1] Cons.prems(3) 2 show ?case by simp
qed

lemma TradesForRebuild_props:
  assumes "distinct (map Trade.TradeID (ledger_trades db))"
  shows "distinct (map Trade.TradeID (TradesForRebuild a db))"
    and "set (map Trade.TradeID (TradesForRebuild a db))
           \<inter> set (map Trade.TradeID (filter (\<lambda>t. Trade.AccountID t \<noteq> a) (ledger_trades db))) = {}"
    and "set (TradesForRebuild a db) = {t \<in> set (ledger_trades db). Trade.AccountID t = a}"
proof -
  let ?own = "filter (\<lambda>t. Trade.AccountID t = a) (ledger_trades db)"
  have "mset (map Trade.TradeID (TradesForRebuild a db)) = mset (map Trade.TradeID ?own)"
    by (simp add: TradesForRebuild_def)
  from mset_eq_imp_distinct_iff[OF this] assms
  show "distinct (map Trade.TradeID (TradesForRebuild a db))"
    by (simp add: distinct_map_filter)
  show 3: "set (TradesForRebuild a db) = {t \<in> set (ledger_trades db). Trade.AccountID t = a}"
    by (auto simp: TradesForRebuild_def)
  from assms have "inj_on Trade.TradeID (set (ledger_trades db))"
    by (simp add: distinct_map)
  then show "set (map Trade.TradeID (TradesForRebuild a db))
           \<inter> set (map Trade.TradeID (filter (\<lambda>t. Trade.AccountID t \<noteq> a) (ledger_trades db))) = {}"
    unfolding set_map 3 by (auto dest: inj_onD)
qed

text \<open>
  What a rebuild that succeeds guarantees. Let the ledger satisfy the keys of the schema.
  The trades that \<^const>\<open>RebuildPositions\<close> replays are the trades of the account, each
  once, ascending in timestamp (to the microsecond the column keeps) and then in trade id.
  Whenever the rebuild returns without an error, the ledger it returns is the one that
  incremental processing produces: those trades, in that order, handed one by one to
  \<^const>\<open>InsertTradeAndUpdatePosition\<close> from the ledger without the trades and positions of
  the account, are all inserted and leave the same position rows. Repeating the rebuild
  returns the same ledger again.
\<close>

theorem rebuild_equals_replay:
  assumes wf: "wellFormed db" and ok: "RebuildPositions a db = Inr db'"
  shows "replay (TradesForRebuild a db) (withoutAccount a db)
           = db'\<lparr>ledger_trades := filter (\<lambda>t. Trade.AccountID t \<noteq> a) (ledger_trades db)
                                     @ TradesForRebuild a db\<rparr>
         \<and> ledger_positions (replay (TradesForRebuild a db) (withoutAccount a db))
             = ledger_positions db'
         \<and> RebuildPositions a db' = Inr db'
         \<and> sorted (map (\<lambda>t. (pgMicros (Trade.Timestamp t), Trade.TradeID t)) (TradesForRebuild a db))
         \<and> mset (TradesForRebuild a db)
             = mset (filter (\<lambda>t. Trade.AccountID t = a) (ledger_trades db))"
proof -
  let ?tx = "db\<lparr>ledger_positions := filter (\<lambda>r. Position.AccountID r \<noteq> a) (ledger_positions db)\<rparr>"
  let ?ts = "TradesForRebuild a db"
  let ?d = "withoutAccount a db"
  from wf have tid: "distinct (map Trade.TradeID (ledger_trades db))"
    and pk: "distinct (map Position.ID (ledger_positions db))"
    and fk: "\<forall>t\<in>set (ledger_trades db). accountExists (Trade.AccountID t) db"
    and i4: "\<forall>t\<in>set (ledger_trades db). int4 (Trade.Leverage t)"
    by (simp_all add: wellFormed_def list_all_iff)
  have ts: "TradesForRebuild a ?tx = ?ts"
    by (simp add: TradesForRebuild_def)
  from ok have all: "upsertAll ?ts ?tx = Inr db'"
    by (simp add: RebuildPositions_def Let_def ts)
  note props = TradesForRebuild_props[OF tid, of a]
  have acc: "\<forall>t\<in>set ?ts. accountExists (Trade.AccountID t) ?d"
    using fk props(3) by (auto simp: accountExists_def withoutAccount_def)
  have disj: "set (map Trade.TradeID ?ts) \<inter> set (map Trade.TradeID (ledger_trades ?d)) = {}"
    using props(2) by (simp add: withoutAccount_def)
  have lev: "\<forall>t\<in>set ?ts. int4 (Trade.Leverage t)"
    using i4 props(3) by simp
  have "replay ?ts ?d = db'\<lparr>ledger_trades := ledger_trades ?d @ ?ts\<rparr>"
    by (rule replay_upsertAll[OF all props(1) disj acc _ _ lev]) (simp_all add: withoutAccount_def)
  then have 1: "replay ?ts ?d
           = db'\<lparr>ledger_trades := filter (\<lambda>t. Trade.AccountID t \<noteq> a) (ledger_trades db) @ ?ts\<rparr>"
    by (simp add: withoutAccount_def)
  have pktx: "distinct (map Position.ID (ledger_positions ?tx))"
    using pk by (simp add: distinct_map_filter)
  have "\<forall>t\<in>set ?ts. Trade.AccountID t = a"
    using props(3) by simp
  from upsertAll_other_accounts[OF all pktx this]
  have others: "filter (\<lambda>r. Position.AccountID r \<noteq> a) (ledger_positions db')
                  = filter (\<lambda>r. Position.AccountID r \<noteq> a) (ledger_positions db)"
    by simp
  from upsertAll_frame[OF all] have fr: "ledger_trades db' = ledger_trades db"
    "ledger_accounts db' = ledger_accounts db"
    by simp_all
  have "db'\<lparr>ledger_positions := filter (\<lambda>r. Position.AccountID r \<noteq> a) (ledger_positions db')\<rparr> = ?tx"
    using others fr by simp
  then have 3: "RebuildPositions a db' = Inr db'"
    using all ts fr by (simp add: RebuildPositions_def Let_def TradesForRebuild_def)
  have 4: "sorted (map (\<lambda>t. (pgMicros (Trade.Timestamp t), Trade.TradeID t)) (TradesForRebuild a db))
         \<and> mset (TradesForRebuild a db)
             = mset (filter (\<lambda>t. Trade.AccountID t = a) (ledger_trades db))"
    by (simp add: TradesForRebuild_def)
  from 1 3 4 show ?thesis by simp
qed

definition c3x :: TradeEvent where "c3x = exEvent ''x'' ''buy'' 1 100 0 ''2025-01-15T10:00:00Z''"
definition c3z :: TradeEvent where "c3z = exEvent ''z'' ''buy'' 1 100 0 ''2025-01-15T10:00:00.7Z''"
definition c3y :: TradeEvent where "c3y = exEvent ''y'' ''sell'' 1 110 0 ''2025-01-15T10:00:00.5Z''"

definition c3db :: Ledger where
  \<comment> \<open>the ledger after the consumer has handled \<open>x\<close>, \<open>z\<close> and \<open>y\<close>, in the order of arrival\<close>
  "c3db = run [(exEnv, Ingest (Some c3x)), (exEnv, Ingest (Some c3z)), (exEnv, Ingest (Some c3y))]"

lemmas rebuild_eval = RebuildPositions_def TradesForRebuild_def pgMicros_def replay_def
  stateAfter_def withoutAccount_def wellFormed_def

lemma c3db_value:
  "c3db =
     \<lparr>ledger_accounts = [exAccount],
      ledger_trades =
        [\<lparr>Trade.TradeID = ''x'', Trade.AccountID = ''live'', Trade.Symbol = ''BTC-USD'',
          Trade.Side = SideBuy, Trade.Quantity = 1, Trade.Price = 100, Trade.Fee = 0,
          Trade.FeeCurrency = ''USD'', Trade.MarketType = MarketTypeSpot,
          Trade.Timestamp = exTime 0, IngestedAt = exTime 0, Trade.CostBasis = 100,
          Trade.RealizedPnL = 0, Trade.Leverage = None, Trade.Margin = None,
          Trade.LiquidationPrice = None, Trade.FundingFee = None\<rparr>,
         \<lparr>Trade.TradeID = ''z'', Trade.AccountID = ''live'', Trade.Symbol = ''BTC-USD'',
          Trade.Side = SideBuy, Trade.Quantity = 1, Trade.Price = 100, Trade.Fee = 0,
          Trade.FeeCurrency = ''USD'', Trade.MarketType = MarketTypeSpot,
          Trade.Timestamp = (exTime 0)\<lparr>Nanosecond := 700000000\<rparr>, IngestedAt = exTime 0,
          Trade.CostBasis = 100, Trade.RealizedPnL = 0, Trade.Leverage = None,
          Trade.Margin = None, Trade.LiquidationPrice = None, Trade.FundingFee = None\<rparr>,
         \<lparr>Trade.TradeID = ''y'', Trade.AccountID = ''live'', Trade.Symbol = ''BTC-USD'',
          Trade.Side = SideSell, Trade.Quantity = 1, Trade.Price = 110, Trade.Fee = 0,
          Trade.FeeCurrency = ''USD'', Trade.MarketType = MarketTypeSpot,
          Trade.Timestamp = (exTime 0)\<lparr>Nanosecond := 500000000\<rparr>, IngestedAt = exTime 0,
          Trade.CostBasis = 100, Trade.RealizedPnL = 10, Trade.Leverage = None,
          Trade.Margin = None, Trade.LiquidationPrice = None, Trade.FundingFee = None\<rparr>],
      ledger_positions =
        [(exPosition MarketTypeSpot PositionSideLong 1 100 100)
           \<lparr>Position.ID := ''live-BTC-USD-spot-1736935200'', Position.RealizedPnL := 10\<rparr>]\<rparr>"
  by (simp add: c3db_def c3x_def c3y_def c3z_def run_def handleMessage_def event_eval parse_eval
        store_eval emptyLedger_def exTime_def exAccount_def exPosition_def Let_def)

text \<open>
  Claim C3 promises, for every trade log, the position rows of incremental processing in
  the order of the timestamps, and \<^verbatim>\<open>RebuildPositions\<close> is documented to delete the
  positions of the account and replay its trades chronologically. The id of a position
  ends in the Unix second of the trade that opens it. The consumer accepts a buy \<open>x\<close> at
  10:00:00.0, a buy \<open>z\<close> at 10:00:00.7 and then a sell \<open>y\<close> of one unit at 10:00:00.5.
  Replayed in the order of their timestamps, \<open>y\<close> closes the position that \<open>x\<close> opened and
  \<open>z\<close> must open a second one within the same second: its id is taken, the rebuild fails
  on the primary key and is rolled back, leaving the open row as it was, while
  incremental processing in that order rejects \<open>z\<close> alone and leaves one closed row.
\<close>

theorem rebuild_counterexample:
  "wellFormed c3db
   \<and> map Trade.TradeID (TradesForRebuild ''live'' c3db) = [''x'', ''y'', ''z'']
   \<and> RebuildPositions ''live'' c3db = Inl (UniqueViolation ''ledger_positions_pkey'')
   \<and> map Position.Status (ledger_positions c3db) = [PositionStatusOpen]
   \<and> map Position.Status
        (ledger_positions (replay (TradesForRebuild ''live'' c3db) (withoutAccount ''live'' c3db)))
       = [PositionStatusClosed]"
  unfolding c3db_value
  by (simp add: rebuild_eval store_eval upsertAll.simps exTime_def exAccount_def exPosition_def
        Let_def)

definition c7db :: Ledger where
  "c7db = run [(exEnv, Ingest (Some c7e1)), (exEnv, Ingest (Some c7e2))]"

theorem rebuild_equals_replay_witness:
  "wellFormed c7db
   \<and> RebuildPositions ''live'' c7db = Inr c7db
   \<and> map Trade.TradeID (TradesForRebuild ''live'' c7db) = [''t1'', ''t2'']
   \<and> ledger_positions (replay (TradesForRebuild ''live'' c7db) (withoutAccount ''live'' c7db))
       = ledger_positions c7db"
proof -
  have wf: "wellFormed c7db"
    by (simp add: c7db_def c7e1_def c7e2_def run_def handleMessage_def event_eval parse_eval
          store_eval emptyLedger_def wellFormed_def Let_def)
  have ok: "RebuildPositions ''live'' c7db = Inr c7db"
    by (simp add: c7db_def c7e1_def c7e2_def run_def handleMessage_def event_eval parse_eval
          store_eval emptyLedger_def rebuild_eval Let_def)
  have ts: "map Trade.TradeID (TradesForRebuild ''live'' c7db) = [''t1'', ''t2'']"
    by (simp add: c7db_def c7e1_def c7e2_def run_def handleMessage_def event_eval parse_eval
          store_eval emptyLedger_def rebuild_eval Let_def)
  from rebuild_equals_replay[OF wf ok] wf ok ts show ?thesis
    by simp
qed

end
